theory Spec2Isabelle
  imports Complex_Main "HOL-Library.Sublist"
begin

text \<open>
  A model of the Faster Chromium extension: the content script that rewrites the
  document (lazy loading, media and image hints, DNS and preload hints, content
  visibility, layout stabilisation, non-blocking stylesheets, link prefetch, the
  mutation observer with its idle batch, and the settings messages) and the script it
  injects into the page (timer throttling, script deferral). Every function of the
  source is a function on an explicit page state; the callbacks the source registers
  become events of a step function.
\<close>

section \<open>The host: URLs, elements, documents\<close>

text \<open>
  The extension runs inside a browser. What the browser computes (URL parsing, layout
  rectangles, intrinsic image sizes, whether a stylesheet has loaded) is input to the
  model: the URL parser is a parameter of the environment, geometry and load state are
  fields of the element. Pixel quantities are reals.
\<close>

record url =
  url_href :: string
  protocol :: string
  origin :: string
  pathname :: string
  search :: string

record rect =
  rect_top :: real
  rect_bottom :: real
  rect_left :: real
  rect_right :: real

definition rect_width :: "rect \<Rightarrow> real" where
  "rect_width r = rect_right r - rect_left r"

definition rect_height :: "rect \<Rightarrow> real" where
  "rect_height r = rect_bottom r - rect_top r"

datatype css_rule = FontFaceRule string | OtherRule

datatype sheet = NoSheet | CrossOriginSheet | Sheet "css_rule list"

text \<open>
  An element: \<open>nid\<close> is the node's identity, \<open>tag\<close> its lower-case local name,
  \<open>parentTag\<close> the local name of its parent, \<open>attrs\<close> its content attributes,
  \<open>bbox\<close> what \<open>getBoundingClientRect()\<close> returns for it, \<open>sheet\<close> the
  stylesheet it owns (\<open>link.sheet\<close>, \<open>style.sheet\<close>), \<open>paused\<close> whether
  \<open>pause()\<close> was called on it, \<open>aspectRatio\<close> its inline
  \<open>style.aspectRatio\<close>.
\<close>

record element =
  nid :: nat
  tag :: string
  parentTag :: string
  attrs :: "string \<rightharpoonup> string"
  nonce :: string
  bbox :: rect
  naturalWidth :: nat
  naturalHeight :: nat
  sheet :: sheet
  paused :: bool
  aspectRatio :: "(nat \<times> nat) option"
  textContent :: string

text \<open>
  The document in document order: the elements below \<open>document.head\<close>, then the
  others. The model covers documents that have a head element.
\<close>

record document =
  headEls :: "element list"
  bodyEls :: "element list"

record env =
  location_origin :: string
  location_pathname :: string
  parseURL :: "string \<Rightarrow> url option"
  parseAbsURL :: "string \<Rightarrow> url option"
  innerWidth :: real
  innerHeight :: real
  nativeIdleCallback :: bool
  extensionURL :: string

definition allEls :: "document \<Rightarrow> element list" where
  "allEls doc = headEls doc @ bodyEls doc"

definition mapEls :: "(element \<Rightarrow> element) \<Rightarrow> document \<Rightarrow> document" where
  "mapEls f doc = doc\<lparr>headEls := map f (headEls doc), bodyEls := map f (bodyEls doc)\<rparr>"

definition hasAttribute :: "element \<Rightarrow> string \<Rightarrow> bool" where
  "hasAttribute e a = (attrs e a \<noteq> None)"

definition setAttribute :: "string \<Rightarrow> string \<Rightarrow> element \<Rightarrow> element" where
  "setAttribute a v e = e\<lparr>attrs := (attrs e)(a \<mapsto> v)\<rparr>"

definition removeAttribute :: "string \<Rightarrow> element \<Rightarrow> element" where
  "removeAttribute a e = e\<lparr>attrs := (attrs e)(a := None)\<rparr>"

text \<open>An IDL property that reflects a string attribute: the empty string when absent.\<close>

definition reflect :: "element \<Rightarrow> string \<Rightarrow> string" where
  "reflect e a = (case attrs e a of None \<Rightarrow> [] | Some v \<Rightarrow> v)"

text \<open>
  An IDL property that reflects a URL attribute (\<open>script.src\<close>, \<open>img.src\<close>,
  \<open>a.href\<close>, \<open>link.href\<close>): the empty string when the attribute is absent, the
  serialised URL when the value parses against the document, the value itself otherwise.
\<close>

definition reflectURL :: "env \<Rightarrow> element \<Rightarrow> string \<Rightarrow> string" where
  "reflectURL env e a =
     (case attrs e a of
        None \<Rightarrow> []
      | Some v \<Rightarrow> (case parseURL env v of Some u \<Rightarrow> url_href u | None \<Rightarrow> v))"

definition src_prop :: "env \<Rightarrow> element \<Rightarrow> string" where
  "src_prop env e = reflectURL env e ''src''"

text \<open>\<open>el.href\<close>: only anchors, areas, links and base elements have the property.\<close>

definition href_prop :: "env \<Rightarrow> element \<Rightarrow> string option" where
  "href_prop env e =
     (if tag e = ''a'' \<or> tag e = ''area'' \<or> tag e = ''link'' \<or> tag e = ''base''
      then Some (reflectURL env e ''href'') else None)"

definition zeroRect :: rect where
  "zeroRect = \<lparr>rect_top = 0, rect_bottom = 0, rect_left = 0, rect_right = 0\<rparr>"

text \<open>\<open>document.createElement(t)\<close>, with the identity the new node gets.\<close>

definition createElement :: "string \<Rightarrow> nat \<Rightarrow> element" where
  "createElement t n =
     \<lparr>nid = n, tag = t, parentTag = [], attrs = Map.empty, nonce = [], bbox = zeroRect,
      naturalWidth = 0, naturalHeight = 0, sheet = NoSheet, paused = False,
      aspectRatio = None, textContent = []\<rparr>"

definition freshNid :: "document \<Rightarrow> nat" where
  "freshNid doc = Suc (fold max (map nid (allEls doc)) 0)"

text \<open>\<open>document.head.appendChild(e)\<close>.\<close>

definition appendHead :: "element \<Rightarrow> document \<Rightarrow> document" where
  "appendHead e doc = doc\<lparr>headEls := headEls doc @ [e\<lparr>parentTag := ''head''\<rparr>]\<rparr>"

section \<open>Page-context patches (injected.js)\<close>

record injectedSettings =
  inj_throttleTimers :: bool
  inj_passiveListeners :: bool
  inj_deferScripts :: bool

subsection \<open>Timer throttling\<close>

text \<open>
  The delay argument of a timer call: absent (\<open>undefined\<close>) or a number.
  \<open>delay || 0\<close> replaces a falsy delay by 0.
\<close>

datatype delay_arg = Absent | Delay real

definition delay_or_zero :: "delay_arg \<Rightarrow> real" where
  "delay_or_zero d = (case d of Absent \<Rightarrow> 0 | Delay x \<Rightarrow> (if x = 0 then 0 else x))"

record ('cb, 'a, 'r) window =
  setInterval :: "'cb \<Rightarrow> delay_arg \<Rightarrow> 'a list \<Rightarrow> 'r"
  setTimeout :: "'cb \<Rightarrow> delay_arg \<Rightarrow> 'a list \<Rightarrow> 'r"

definition minInterval :: real where
  "minInterval = 100"

definition minTimeout :: real where
  "minTimeout = 10"

definition throttle_timers ::
  "injectedSettings \<Rightarrow> ('cb, 'a, 'r) window \<Rightarrow> ('cb, 'a, 'r) window" where
  "throttle_timers s w =
     (if inj_throttleTimers s then
        w\<lparr>setInterval := (\<lambda>callback delay args.
              setInterval w callback (Delay (max (delay_or_zero delay) minInterval)) args),
          setTimeout := (\<lambda>callback delay args.
              setTimeout w callback (Delay (max (delay_or_zero delay) minTimeout)) args)\<rparr>
      else w)"

subsection \<open>Script deferral\<close>

text \<open>
  \<open>parentNode.replaceChild(deferred, script)\<close>: the new node takes the place of the
  old one. A script that is not in the document has no parent here, and nothing happens.
\<close>

definition replaceChild :: "element \<Rightarrow> element \<Rightarrow> document \<Rightarrow> document" where
  "replaceChild new old doc =
     mapEls (\<lambda>e. if nid e = nid old then new\<lparr>parentTag := parentTag e\<rparr> else e) doc"

definition deferred_attrs :: "env \<Rightarrow> element \<Rightarrow> (string \<rightharpoonup> string)" where
  "deferred_attrs env script =
     (\<lambda>name. if name \<noteq> ''src'' \<and> name \<noteq> ''defer'' \<and> name \<noteq> ''type''
              then attrs script name
              else [''src'' \<mapsto> src_prop env script, ''defer'' \<mapsto> []] name)"

definition deferScript :: "env \<Rightarrow> element \<Rightarrow> document \<Rightarrow> document" where
  "deferScript env script doc =
     (if src_prop env script = [] then doc
      else if hasAttribute script ''async'' \<or> hasAttribute script ''defer''
              \<or> reflect script ''type'' = ''module'' then doc
      else if hasAttribute script ''nomodule'' then doc
      else if nonce script \<noteq> [] \<or> hasAttribute script ''integrity'' then doc
      else (case parseURL env (src_prop env script) of
              None \<Rightarrow> doc
            | Some u \<Rightarrow>
                if origin u \<noteq> location_origin env then doc
                else replaceChild
                       ((createElement ''script'' (freshNid doc))
                          \<lparr>attrs := deferred_attrs env script\<rparr>)
                       script doc))"

text \<open>
  A node added in a mutation record: a non-element node, or an element together with
  the script elements below it (\<open>node.querySelectorAll('script')\<close>).
\<close>

datatype added_node = OtherNode | ElementNode element "element list"

fun deferNode :: "env \<Rightarrow> added_node \<Rightarrow> document \<Rightarrow> document" where
  "deferNode env OtherNode doc = doc"
| "deferNode env (ElementNode node scripts) doc =
     fold (deferScript env) scripts
       (if tag node = ''script'' then deferScript env node doc else doc)"

definition deferObserver :: "injectedSettings \<Rightarrow> env \<Rightarrow> added_node list \<Rightarrow> document \<Rightarrow> document" where
  "deferObserver s env added doc =
     (if inj_deferScripts s then fold (deferNode env) added doc else doc)"

section \<open>Content script: state\<close>

record settings =
  opt_enabled :: bool
  opt_disableAnimations :: bool
  opt_lazyLoadImages :: bool
  opt_disableAutoplay :: bool
  opt_throttleTimers :: bool
  opt_prefetchDNS :: bool
  opt_preloadLCP :: bool
  opt_prefetchLinks :: bool
  opt_optimizeImagePriority :: bool
  opt_lazyLoadIframes :: bool
  opt_reduceMediaPreload :: bool
  opt_fontDisplaySwap :: bool
  opt_contentVisibility :: bool
  opt_stabilizeLayout :: bool
  opt_nonBlockingCSS :: bool
  opt_deferScripts :: bool
  opt_passiveListeners :: bool

record metrics =
  startTime :: nat
  loadTime :: "nat option"
  animationsDisabled :: nat
  imagesOptimized :: nat
  iframesLazyLoaded :: nat
  mediaOptimized :: nat
  cssNonBlocked :: nat
  scriptsDeferred :: nat
  linksPrefetched :: nat
  dnsPrefetched :: nat

datatype readyState = Loading | Interactive | Complete

text \<open>
  What \<open>chrome.runtime?.id\<close> does when read: it is there, it is undefined, or the
  access throws.
\<close>

datatype runtime = RuntimeOk | RuntimeGone | RuntimeThrows

text \<open>
  A callback handed to \<open>requestIdleCallback\<close>: the coalesced cleanup batch, or the
  injection of a prefetch hint for \<open>href\<close> by the intersection observer number \<open>k\<close>.
  \<open>latest\<close> is the time (in ms) by which the host has to run it.
\<close>

datatype idle_task = CleanupTask | PrefetchTask nat string

record idle_request =
  task :: idle_task
  latest :: nat

text \<open>One \<open>IntersectionObserver\<close> of \<open>prefetchVisibleLinks\<close> with its closure.\<close>

record io_state =
  prefetched :: "string list"
  observing :: "nat list"

record page =
  doc :: document
  readyState :: readyState
  runtime :: runtime
  settings :: "settings option"
  observer :: bool
  optimizationsApplied :: bool
  cleanupScheduled :: bool
  performanceMetrics :: metrics
  contextValid :: bool
  idleQueue :: "idle_request list"
  domContentLoadedListener :: bool
  loadListener :: bool
  stabilizeListeners :: "nat list"
  mediaListeners :: "nat list"
  injectedScripts :: "nat list"
  intersectionObservers :: "io_state list"

definition getEl :: "document \<Rightarrow> nat \<Rightarrow> element option" where
  "getEl d n = find (\<lambda>e. nid e = n) (allEls d)"

definition updateEl :: "nat \<Rightarrow> (element \<Rightarrow> element) \<Rightarrow> document \<Rightarrow> document" where
  "updateEl n f d = mapEls (\<lambda>e. if nid e = n then f e else e) d"

definition getElementById :: "document \<Rightarrow> string \<Rightarrow> element option" where
  "getElementById d i = find (\<lambda>e. attrs e ''id'' = Some i) (allEls d)"

text \<open>\<open>el.remove()\<close>.\<close>

definition removeEl :: "nat \<Rightarrow> document \<Rightarrow> document" where
  "removeEl n d = d\<lparr>headEls := filter (\<lambda>e. nid e \<noteq> n) (headEls d),
                     bodyEls := filter (\<lambda>e. nid e \<noteq> n) (bodyEls d)\<rparr>"

definition truthy :: "string option \<Rightarrow> bool" where
  "truthy x = (x \<noteq> None \<and> x \<noteq> Some [])"

definition or_else :: "string option \<Rightarrow> string option \<Rightarrow> string option" where
  "or_else a b = (if truthy a then a else b)"

definition isContextValid :: "page \<Rightarrow> bool \<times> page" where
  "isContextValid st =
     (if \<not> contextValid st then (False, st)
      else case runtime st of
             RuntimeOk \<Rightarrow> (True, st)
           | RuntimeGone \<Rightarrow> (False, st)
           | RuntimeThrows \<Rightarrow> (False, st\<lparr>contextValid := False, observer := False\<rparr>))"

section \<open>Content script: executors\<close>

definition animationsStyleId :: string where
  "animationsStyleId = ''faster-chromium-disable-animations''"

definition contentVisibilityStyleId :: string where
  "contentVisibilityStyleId = ''faster-chromium-content-visibility''"

definition animationsCSS :: string where
  "animationsCSS = ''*, *::before, *::after { animation-duration: 0.001ms !important; animation-delay: 0ms !important; animation-iteration-count: 1 !important; transition-duration: 0.001ms !important; transition-delay: 0ms !important; scroll-behavior: auto !important; }''"

definition contentVisibilityCSS :: string where
  "contentVisibilityCSS = ''[data-fc-cv] { content-visibility: auto; contain-intrinsic-size: auto 500px; }''"

definition styleElement :: "string \<Rightarrow> string \<Rightarrow> nat \<Rightarrow> element" where
  "styleElement i css n =
     (createElement ''style'' n)\<lparr>attrs := [''id'' \<mapsto> i], textContent := css,
                                 sheet := Sheet [OtherRule]\<rparr>"

definition disableAnimations :: "settings \<Rightarrow> page \<Rightarrow> page" where
  "disableAnimations s st =
     (if \<not> opt_disableAnimations s then st
      else if getElementById (doc st) animationsStyleId \<noteq> None then st
      else st\<lparr>doc := appendHead (styleElement animationsStyleId animationsCSS (freshNid (doc st)))
                        (doc st),
              performanceMetrics := (performanceMetrics st)\<lparr>animationsDisabled := 1\<rparr>\<rparr>)"

definition setupLazyLoading :: "settings \<Rightarrow> page \<Rightarrow> page" where
  "setupLazyLoading s st =
     (if \<not> opt_lazyLoadImages s then st
      else st\<lparr>doc := mapEls (\<lambda>img. if tag img = ''img'' \<and> \<not> hasAttribute img ''loading''
                                  then setAttribute ''loading'' ''lazy'' img else img) (doc st)\<rparr>)"

subsection \<open>\<open>parseInt\<close>\<close>

definition digit_of :: "char \<Rightarrow> nat option" where
  "digit_of c = map_of (zip ''0123456789'' [0, 1, 2, 3, 4, 5, 6, 7, 8, 9]) c"

definition hexdigit_of :: "char \<Rightarrow> nat option" where
  "hexdigit_of c =
     map_of (zip ''0123456789abcdefABCDEF''
               [0, 1, 2, 3, 4, 5, 6, 7, 8, 9, 10, 11, 12, 13, 14, 15, 10, 11, 12, 13, 14, 15]) c"

definition is_space :: "char \<Rightarrow> bool" where
  "is_space c = (c \<in> set [CHR 0x09, CHR 0x0A, CHR 0x0B, CHR 0x0C, CHR 0x0D, CHR 0x20])"

definition digits_value :: "nat \<Rightarrow> (char \<Rightarrow> nat option) \<Rightarrow> string \<Rightarrow> nat option" where
  "digits_value radix dig s =
     (let ds = takeWhile (\<lambda>c. dig c \<noteq> None) s
      in if ds = [] then None
         else Some (foldl (\<lambda>a c. a * radix + (case dig c of Some d \<Rightarrow> d | None \<Rightarrow> 0)) 0 ds))"

text \<open>\<open>parseInt(s)\<close>; \<open>None\<close> is NaN.\<close>

definition parseInt :: "string \<Rightarrow> int option" where
  "parseInt s =
     (let s1 = dropWhile is_space s;
          neg = (s1 \<noteq> [] \<and> hd s1 = CHR ''-'');
          s2 = (if s1 \<noteq> [] \<and> (hd s1 = CHR ''-'' \<or> hd s1 = CHR ''+'') then tl s1 else s1);
          v = (if take 2 s2 = ''0x'' \<or> take 2 s2 = ''0X''
               then digits_value 16 hexdigit_of (drop 2 s2)
               else digits_value 10 digit_of s2)
      in map_option (\<lambda>n. if neg then - int n else int n) v)"

definition tiny :: "string \<Rightarrow> bool" where
  "tiny w = (w \<noteq> [] \<and> (case parseInt w of None \<Rightarrow> False | Some v \<Rightarrow> v \<le> 1))"

definition lazyIframe :: "element \<Rightarrow> bool" where
  "lazyIframe iframe =
     (tag iframe = ''iframe'' \<and> \<not> hasAttribute iframe ''loading''
      \<and> \<not> tiny (reflect iframe ''width'') \<and> \<not> tiny (reflect iframe ''height''))"

definition setupLazyLoadIframes :: "settings \<Rightarrow> page \<Rightarrow> page" where
  "setupLazyLoadIframes s st =
     (if \<not> opt_lazyLoadIframes s then st
      else st\<lparr>doc := mapEls (\<lambda>iframe. if lazyIframe iframe
                                     then setAttribute ''loading'' ''lazy'' iframe else iframe)
                        (doc st),
              performanceMetrics := (performanceMetrics st)
                \<lparr>iframesLazyLoaded := iframesLazyLoaded (performanceMetrics st)
                    + length (filter lazyIframe (allEls (doc st)))\<rparr>\<rparr>)"

definition disableAutoplay :: "settings \<Rightarrow> page \<Rightarrow> page" where
  "disableAutoplay s st =
     (if \<not> opt_disableAutoplay s then st
      else st\<lparr>doc := mapEls (\<lambda>m. if (tag m = ''video'' \<or> tag m = ''audio'') \<and> hasAttribute m ''autoplay''
                                then (removeAttribute ''autoplay'' m)\<lparr>paused := True\<rparr> else m)
                        (doc st)\<rparr>)"

definition mediaCandidate :: "element \<Rightarrow> bool" where
  "mediaCandidate m = ((tag m = ''video'' \<or> tag m = ''audio'') \<and> \<not> hasAttribute m ''data-fc-media-opt'')"

definition eagerPreload :: "element \<Rightarrow> bool" where
  "eagerPreload m = (\<not> truthy (attrs m ''preload'') \<or> attrs m ''preload'' = Some ''auto'')"

definition reduceMediaPreload :: "settings \<Rightarrow> page \<Rightarrow> page" where
  "reduceMediaPreload s st =
     (if \<not> opt_reduceMediaPreload s then st
      else st\<lparr>doc := mapEls (\<lambda>m. if mediaCandidate m
                                then (let m1 = setAttribute ''data-fc-media-opt'' [] m
                                      in if eagerPreload m1 then setAttribute ''preload'' ''metadata'' m1
                                         else m1)
                                else m) (doc st),
              performanceMetrics := (performanceMetrics st)
                \<lparr>mediaOptimized := mediaOptimized (performanceMetrics st)
                    + length (filter (\<lambda>m. mediaCandidate m \<and> eagerPreload m) (allEls (doc st)))\<rparr>\<rparr>)"

subsection \<open>DNS prefetch and preconnect hints\<close>

definition dnsSelected :: "element \<Rightarrow> bool" where
  "dnsSelected el =
     ((tag el = ''a'' \<and> hasAttribute el ''href'') \<or> (tag el = ''img'' \<and> hasAttribute el ''src'')
      \<or> (tag el = ''script'' \<and> hasAttribute el ''src'') \<or> (tag el = ''link'' \<and> hasAttribute el ''href''))"

text \<open>\<open>el.href || el.src || el.getAttribute('href')\<close> on a selected element.\<close>

definition resourceURL :: "env \<Rightarrow> element \<Rightarrow> string option" where
  "resourceURL env el =
     or_else (href_prop env el)
       (or_else (if tag el = ''img'' \<or> tag el = ''script'' then Some (src_prop env el) else None)
          (attrs el ''href''))"

definition addOrigin :: "env \<Rightarrow> element \<Rightarrow> string list \<Rightarrow> string list" where
  "addOrigin env el origins =
     (case resourceURL env el of
        None \<Rightarrow> origins
      | Some u \<Rightarrow>
          if u = [] then origins
          else (case parseURL env u of
                  None \<Rightarrow> origins
                | Some parsed \<Rightarrow>
                    if origin parsed \<noteq> location_origin env \<and> take 4 (protocol parsed) = ''http''
                    then (if origin parsed \<in> set origins then origins else origins @ [origin parsed])
                    else origins))"

definition collectOrigins :: "env \<Rightarrow> document \<Rightarrow> string list" where
  "collectOrigins env d = fold (addOrigin env) (filter dnsSelected (allEls d)) []"

definition hasDnsPrefetch :: "document \<Rightarrow> string \<Rightarrow> bool" where
  "hasDnsPrefetch d orig =
     (\<exists>l \<in> set (allEls d). tag l = ''link'' \<and> attrs l ''rel'' = Some ''dns-prefetch''
                           \<and> attrs l ''href'' = Some orig)"

definition dnsLink :: "string \<Rightarrow> nat \<Rightarrow> element" where
  "dnsLink orig n = (createElement ''link'' n)\<lparr>attrs := [''rel'' \<mapsto> ''dns-prefetch'', ''href'' \<mapsto> orig]\<rparr>"

definition preconnectLink :: "string \<Rightarrow> nat \<Rightarrow> element" where
  "preconnectLink orig n =
     (createElement ''link'' n)\<lparr>attrs := [''rel'' \<mapsto> ''preconnect'', ''href'' \<mapsto> orig,
                                         ''crossorigin'' \<mapsto> ''anonymous'']\<rparr>"

definition addHints :: "string \<Rightarrow> document \<Rightarrow> document" where
  "addHints orig d =
     (let d1 = appendHead (dnsLink orig (freshNid d)) d
      in appendHead (preconnectLink orig (freshNid d1)) d1)"

fun dnsLoop :: "string list \<Rightarrow> nat \<Rightarrow> page \<Rightarrow> page" where
  "dnsLoop [] count st = st"
| "dnsLoop (orig # rest) count st =
     (if count \<ge> 10 then st
      else if hasDnsPrefetch (doc st) orig then dnsLoop rest count st
      else dnsLoop rest (count + 1)
             (st\<lparr>doc := addHints orig (doc st),
                 performanceMetrics := (performanceMetrics st)
                   \<lparr>dnsPrefetched := dnsPrefetched (performanceMetrics st) + 1\<rparr>\<rparr>))"

definition setupDNSPrefetch :: "env \<Rightarrow> settings \<Rightarrow> page \<Rightarrow> page" where
  "setupDNSPrefetch env s st =
     (if \<not> opt_prefetchDNS s then st
      else dnsLoop (collectOrigins env (doc st)) 0 st)"

subsection \<open>Preload of the largest visible image\<close>

definition inViewport :: "env \<Rightarrow> rect \<Rightarrow> bool" where
  "inViewport env r =
     (rect_top r < innerHeight env \<and> rect_bottom r > 0
      \<and> rect_left r < innerWidth env \<and> rect_right r > 0)"

definition largerImage :: "env \<Rightarrow> element \<Rightarrow> element option \<times> real \<Rightarrow> element option \<times> real" where
  "largerImage env img acc =
     (if inViewport env (bbox img) \<and> rect_width (bbox img) * rect_height (bbox img) > snd acc
      then (Some img, rect_width (bbox img) * rect_height (bbox img)) else acc)"

definition hasPreload :: "document \<Rightarrow> string \<Rightarrow> bool" where
  "hasPreload d u =
     (\<exists>l \<in> set (allEls d). tag l = ''link'' \<and> attrs l ''rel'' = Some ''preload''
                           \<and> attrs l ''href'' = Some u)"

definition preloadLink :: "string \<Rightarrow> nat \<Rightarrow> element" where
  "preloadLink u n =
     (createElement ''link'' n)\<lparr>attrs := [''rel'' \<mapsto> ''preload'', ''as'' \<mapsto> ''image'', ''href'' \<mapsto> u]\<rparr>"

definition preloadLCPCandidate :: "env \<Rightarrow> settings \<Rightarrow> page \<Rightarrow> page" where
  "preloadLCPCandidate env s st =
     (if \<not> opt_preloadLCP s then st
      else case fold (largerImage env)
                  (filter (\<lambda>img. tag img = ''img'' \<and> hasAttribute img ''src'') (allEls (doc st)))
                  (None, 0) of
             (None, largestArea) \<Rightarrow> st
           | (Some largestImg, largestArea) \<Rightarrow>
               if src_prop env largestImg \<noteq> [] \<and> largestArea > 5000
                  \<and> \<not> hasPreload (doc st) (src_prop env largestImg)
               then st\<lparr>doc := appendHead (preloadLink (src_prop env largestImg) (freshNid (doc st)))
                                 (doc st)\<rparr>
               else st)"

subsection \<open>Image priority and decoding\<close>

definition optimizeImage :: "env \<Rightarrow> element \<Rightarrow> element" where
  "optimizeImage env img =
     (let img1 = setAttribute ''data-fc-optimized'' [] img;
          img2 = (if \<not> hasAttribute img1 ''decoding''
                  then setAttribute ''decoding'' ''async'' img1 else img1)
      in if \<not> hasAttribute img2 ''fetchpriority''
         then (if rect_top (bbox img2) < innerHeight env \<and> rect_bottom (bbox img2) > 0
               then setAttribute ''fetchpriority'' ''high'' img2
               else setAttribute ''fetchpriority'' ''low'' img2)
         else img2)"

definition unoptimizedImage :: "element \<Rightarrow> bool" where
  "unoptimizedImage img = (tag img = ''img'' \<and> \<not> hasAttribute img ''data-fc-optimized'')"

definition optimizeImageLoading :: "env \<Rightarrow> settings \<Rightarrow> page \<Rightarrow> page" where
  "optimizeImageLoading env s st =
     (if \<not> opt_optimizeImagePriority s then st
      else st\<lparr>doc := mapEls (\<lambda>img. if unoptimizedImage img then optimizeImage env img else img)
                        (doc st),
              performanceMetrics := (performanceMetrics st)
                \<lparr>imagesOptimized := imagesOptimized (performanceMetrics st)
                    + length (filter unoptimizedImage (allEls (doc st)))\<rparr>\<rparr>)"

subsection \<open>Rendering\<close>

definition swapRule :: "css_rule \<Rightarrow> css_rule" where
  "swapRule r = (case r of FontFaceRule d \<Rightarrow> FontFaceRule ''swap'' | OtherRule \<Rightarrow> OtherRule)"

definition swapSheet :: "sheet \<Rightarrow> sheet" where
  "swapSheet sh = (case sh of Sheet rules \<Rightarrow> Sheet (map swapRule rules)
                             | CrossOriginSheet \<Rightarrow> CrossOriginSheet
                             | NoSheet \<Rightarrow> NoSheet)"

definition injectFontDisplaySwap :: "settings \<Rightarrow> page \<Rightarrow> page" where
  "injectFontDisplaySwap s st =
     (if \<not> opt_fontDisplaySwap s then st
      else st\<lparr>doc := mapEls (\<lambda>e. e\<lparr>sheet := swapSheet (sheet e)\<rparr>) (doc st)\<rparr>)"

definition cvCandidate :: "element \<Rightarrow> bool" where
  "cvCandidate el =
     (tag el = ''section'' \<or> tag el = ''article'' \<or> (tag el = ''div'' \<and> parentTag el = ''main'')
      \<or> attrs el ''role'' = Some ''region'')"

definition belowFold :: "env \<Rightarrow> element \<Rightarrow> bool" where
  "belowFold env el =
     (cvCandidate el \<and> rect_top (bbox el) > innerHeight env * (3 / 2) \<and> rect_height (bbox el) > 100)"

definition injectContentVisibility :: "env \<Rightarrow> settings \<Rightarrow> page \<Rightarrow> page" where
  "injectContentVisibility env s st =
     (if \<not> opt_contentVisibility s then st
      else if getElementById (doc st) contentVisibilityStyleId \<noteq> None then st
      else let tagged = length (filter (belowFold env) (allEls (doc st)));
               d1 = mapEls (\<lambda>el. if belowFold env el then setAttribute ''data-fc-cv'' [] el else el)
                      (doc st)
           in if tagged > 0
              then st\<lparr>doc := appendHead
                         (styleElement contentVisibilityStyleId contentVisibilityCSS (freshNid d1)) d1\<rparr>
              else st\<lparr>doc := d1\<rparr>)"

fun show_nat :: "nat \<Rightarrow> string" where
  "show_nat n =
     (if n < 10 then [''0123456789'' ! n]
      else show_nat (n div 10) @ [''0123456789'' ! (n mod 10)])"

declare show_nat.simps [simp del]

definition stabilizeImage :: "element \<Rightarrow> element" where
  "stabilizeImage img =
     setAttribute ''data-fc-stabilized'' []
       ((setAttribute ''height'' (show_nat (naturalHeight img))
           (setAttribute ''width'' (show_nat (naturalWidth img)) img))
          \<lparr>aspectRatio := Some (naturalWidth img, naturalHeight img)\<rparr>)"

definition unstabilized :: "element \<Rightarrow> bool" where
  "unstabilized img =
     (tag img = ''img'' \<and> \<not> hasAttribute img ''data-fc-stabilized''
      \<and> \<not> (hasAttribute img ''width'' \<and> hasAttribute img ''height''))"

definition sized :: "element \<Rightarrow> bool" where
  "sized img = (naturalWidth img \<noteq> 0 \<and> naturalHeight img \<noteq> 0)"

definition stabilizeImageLayout :: "settings \<Rightarrow> page \<Rightarrow> page" where
  "stabilizeImageLayout s st =
     (if \<not> opt_stabilizeLayout s then st
      else st\<lparr>doc := mapEls (\<lambda>img. if unstabilized img \<and> sized img then stabilizeImage img else img)
                        (doc st),
              stabilizeListeners := stabilizeListeners st
                @ map nid (filter (\<lambda>img. unstabilized img \<and> \<not> sized img) (allEls (doc st)))\<rparr>)"

text \<open>The \<open>load\<close> event of image \<open>n\<close>: its one-shot listeners run and are gone.\<close>

definition imageLoaded :: "nat \<Rightarrow> page \<Rightarrow> page" where
  "imageLoaded n st =
     (if n \<in> set (stabilizeListeners st)
      then st\<lparr>doc := updateEl n (\<lambda>img. if sized img \<and> \<not> hasAttribute img ''data-fc-stabilized''
                                       then stabilizeImage img else img) (doc st),
              stabilizeListeners := removeAll n (stabilizeListeners st)\<rparr>
      else st)"

subsection \<open>Render-blocking stylesheets\<close>

definition handleNewStylesheet :: "env \<Rightarrow> settings \<Rightarrow> nat \<Rightarrow> page \<Rightarrow> page" where
  "handleNewStylesheet env s n st =
     (case getEl (doc st) n of
        None \<Rightarrow> st
      | Some link \<Rightarrow>
          if \<not> opt_nonBlockingCSS s then st
          else if reflect link ''rel'' \<noteq> ''stylesheet'' \<or> \<not> truthy (href_prop env link) then st
          else if hasAttribute link ''data-fc-nb'' then st
          else if sheet link \<noteq> NoSheet then st
          else if reflect link ''media'' \<noteq> [] \<and> reflect link ''media'' \<noteq> ''all''
                  \<and> reflect link ''media'' \<noteq> [] then st
          else st\<lparr>doc := updateEl n (\<lambda>l. setAttribute ''media'' ''print''
                                          (setAttribute ''data-fc-nb'' [] l)) (doc st),
                  mediaListeners := mediaListeners st @ [n],
                  performanceMetrics := (performanceMetrics st)
                    \<lparr>cssNonBlocked := cssNonBlocked (performanceMetrics st) + 1\<rparr>\<rparr>)"

text \<open>The \<open>load\<close> event of link \<open>n\<close>: the one-shot listener sets \<open>media\<close>.\<close>

definition stylesheetLoaded :: "nat \<Rightarrow> page \<Rightarrow> page" where
  "stylesheetLoaded n st =
     (if n \<in> set (mediaListeners st)
      then st\<lparr>doc := updateEl n (setAttribute ''media'' ''all'') (doc st),
              mediaListeners := removeAll n (mediaListeners st)\<rparr>
      else st)"

subsection \<open>Link prefetch\<close>

definition MAX_PREFETCH :: nat where
  "MAX_PREFETCH = 5"

definition ascii_lower :: "char \<Rightarrow> char" where
  "ascii_lower c =
     (case map_of (zip ''ABCDEFGHIJKLMNOPQRSTUVWXYZ'' ''abcdefghijklmnopqrstuvwxyz'') c of
        Some l \<Rightarrow> l | None \<Rightarrow> c)"

fun contains_str :: "string \<Rightarrow> string \<Rightarrow> bool" where
  "contains_str needle [] = (needle = [])"
| "contains_str needle (c # cs) = (prefix needle (c # cs) \<or> contains_str needle cs)"

text \<open>\<open>/\/(logout|signout|delete|remove|unsubscribe|revoke)/i.test(p)\<close>.\<close>

definition stateChangingPath :: "string \<Rightarrow> bool" where
  "stateChangingPath p =
     (\<exists>w \<in> set [''logout'', ''signout'', ''delete'', ''remove'', ''unsubscribe'', ''revoke''].
        contains_str (CHR ''/'' # w) (map ascii_lower p))"

definition requestIdleCallback ::
  "env \<Rightarrow> nat \<Rightarrow> idle_task \<Rightarrow> nat \<Rightarrow> idle_request list \<Rightarrow> idle_request list" where
  "requestIdleCallback env now t timeout q =
     q @ [\<lparr>task = t, latest = now + (if nativeIdleCallback env then timeout else 1)\<rparr>]"

record io_entry =
  target :: element
  isIntersecting :: bool

definition unobserve :: "nat \<Rightarrow> nat \<Rightarrow> page \<Rightarrow> page" where
  "unobserve k n st =
     st\<lparr>intersectionObservers := (intersectionObservers st)
          [k := (intersectionObservers st ! k)
                  \<lparr>observing := removeAll n (observing (intersectionObservers st ! k))\<rparr>]\<rparr>"

definition ioEntry :: "env \<Rightarrow> nat \<Rightarrow> nat \<Rightarrow> io_entry \<Rightarrow> page \<Rightarrow> page" where
  "ioEntry env now k entry st =
     (if k \<ge> length (intersectionObservers st) then st
      else if \<not> isIntersecting entry then st
      else if length (prefetched (intersectionObservers st ! k)) \<ge> MAX_PREFETCH then st
      else case href_prop env (target entry) of
             None \<Rightarrow> st
           | Some href \<Rightarrow>
               if href = [] \<or> href \<in> set (prefetched (intersectionObservers st ! k)) then st
               else (case parseAbsURL env href of
                       None \<Rightarrow> unobserve k (nid (target entry)) st
                     | Some u \<Rightarrow>
                         if origin u \<noteq> location_origin env then st
                         else if pathname u = location_pathname env then st
                         else if take 4 (protocol u) \<noteq> ''http'' then st
                         else if search u \<noteq> [] then st
                         else if stateChangingPath (pathname u) then st
                         else unobserve k (nid (target entry))
                                (st\<lparr>idleQueue := requestIdleCallback env now (PrefetchTask k href)
                                                   2000 (idleQueue st)\<rparr>)))"

definition ioCallback :: "env \<Rightarrow> nat \<Rightarrow> nat \<Rightarrow> io_entry list \<Rightarrow> page \<Rightarrow> page" where
  "ioCallback env now k entries st = fold (ioEntry env now k) entries st"

definition prefetchLink :: "string \<Rightarrow> nat \<Rightarrow> element" where
  "prefetchLink href n = (createElement ''link'' n)\<lparr>attrs := [''rel'' \<mapsto> ''prefetch'', ''href'' \<mapsto> href]\<rparr>"

definition injectPrefetch :: "nat \<Rightarrow> string \<Rightarrow> page \<Rightarrow> page" where
  "injectPrefetch k href st =
     (if k \<ge> length (intersectionObservers st) then st
      else if length (prefetched (intersectionObservers st ! k)) \<ge> MAX_PREFETCH then st
      else st\<lparr>doc := appendHead (prefetchLink href (freshNid (doc st))) (doc st),
              intersectionObservers := (intersectionObservers st)
                [k := (intersectionObservers st ! k)
                        \<lparr>prefetched := List.insert href (prefetched (intersectionObservers st ! k))\<rparr>],
              performanceMetrics := (performanceMetrics st)
                \<lparr>linksPrefetched := linksPrefetched (performanceMetrics st) + 1\<rparr>\<rparr>)"

definition prefetchVisibleLinks :: "settings \<Rightarrow> page \<Rightarrow> page" where
  "prefetchVisibleLinks s st =
     (if \<not> opt_prefetchLinks s then st
      else st\<lparr>intersectionObservers := intersectionObservers st
                @ [\<lparr>prefetched = [],
                    observing = map nid (filter (\<lambda>a. tag a = ''a'' \<and> hasAttribute a ''href'')
                                           (allEls (doc st)))\<rparr>]\<rparr>)"

section \<open>Content script: core infrastructure\<close>

definition cleanupBatch :: "env \<Rightarrow> page \<Rightarrow> page" where
  "cleanupBatch env st =
     (let st0 = st\<lparr>cleanupScheduled := False\<rparr>
      in if \<not> fst (isContextValid st0) then snd (isContextValid st0)
         else case settings st0 of
                None \<Rightarrow> st0
              | Some s \<Rightarrow>
                  stabilizeImageLayout s (reduceMediaPreload s (disableAutoplay s
                    (optimizeImageLoading env s (setupLazyLoadIframes s (setupLazyLoading s st0))))))"

definition scheduleCleanup :: "env \<Rightarrow> nat \<Rightarrow> page \<Rightarrow> page" where
  "scheduleCleanup env now st =
     (if cleanupScheduled st then st
      else if \<not> fst (isContextValid st) then snd (isContextValid st)
      else st\<lparr>cleanupScheduled := True,
              idleQueue := requestIdleCallback env now CleanupTask 200 (idleQueue st)\<rparr>)"

definition runIdleTask :: "env \<Rightarrow> idle_task \<Rightarrow> page \<Rightarrow> page" where
  "runIdleTask env t st =
     (case t of CleanupTask \<Rightarrow> cleanupBatch env st | PrefetchTask k href \<Rightarrow> injectPrefetch k href st)"

text \<open>The host runs the pending idle request number \<open>i\<close>.\<close>

definition idleFire :: "env \<Rightarrow> nat \<Rightarrow> page \<Rightarrow> page" where
  "idleFire env i st =
     (if i < length (idleQueue st)
      then runIdleTask env (task (idleQueue st ! i))
             (st\<lparr>idleQueue := take i (idleQueue st) @ drop (Suc i) (idleQueue st)\<rparr>)
      else st)"

text \<open>
  A node added in a mutation record, as the content script sees it: a non-element
  node, or the element \<open>n\<close> with the \<open>link[rel="stylesheet"]\<close> elements below it.
\<close>

datatype mutation_node = TextNode | ElemNode nat "nat list"

definition isElemNode :: "mutation_node \<Rightarrow> bool" where
  "isElemNode node = (case node of TextNode \<Rightarrow> False | ElemNode n links \<Rightarrow> True)"

definition triageNode :: "env \<Rightarrow> settings \<Rightarrow> mutation_node \<Rightarrow> page \<Rightarrow> page" where
  "triageNode env s node st =
     (case node of
        TextNode \<Rightarrow> st
      | ElemNode n links \<Rightarrow>
          fold (handleNewStylesheet env s) links
            (if map_option tag (getEl (doc st) n) = Some ''link''
             then handleNewStylesheet env s n st else st))"

definition mutationCallback :: "env \<Rightarrow> nat \<Rightarrow> mutation_node list list \<Rightarrow> page \<Rightarrow> page" where
  "mutationCallback env now mutations st =
     (if \<not> observer st then st
      else if \<not> fst (isContextValid st) then snd (isContextValid st)
      else case settings st of
             None \<Rightarrow> st
           | Some s \<Rightarrow>
               (let st1 = fold (triageNode env s) (concat mutations) st
                in if \<exists>node \<in> set (concat mutations). isElemNode node
                   then scheduleCleanup env now st1 else st1))"

definition setupMutationObserver :: "page \<Rightarrow> page" where
  "setupMutationObserver st = st\<lparr>observer := True\<rparr>"

definition json_bool :: "bool \<Rightarrow> string" where
  "json_bool b = (if b then ''true'' else ''false'')"

definition injectedSettingsJSON :: "settings \<Rightarrow> string" where
  \<open>injectedSettingsJSON s =
     ''{"throttleTimers":'' @ json_bool (opt_throttleTimers s)
     @ '',"passiveListeners":'' @ json_bool (opt_passiveListeners s)
     @ '',"deferScripts":'' @ json_bool (opt_deferScripts s) @ ''}''\<close>

definition injectPageScript :: "env \<Rightarrow> page \<Rightarrow> page" where
  "injectPageScript env st =
     (if \<not> fst (isContextValid st) then snd (isContextValid st)
      else case settings st of
             None \<Rightarrow> st
           | Some s \<Rightarrow>
               st\<lparr>doc := appendHead
                           ((createElement ''script'' (freshNid (doc st)))
                              \<lparr>attrs := [''src'' \<mapsto> extensionURL env,
                                         ''data-faster-chromium-settings'' \<mapsto> injectedSettingsJSON s]\<rparr>)
                           (doc st),
                  injectedScripts := injectedScripts st @ [freshNid (doc st)]\<rparr>)"

text \<open>\<open>script.onload = () => script.remove()\<close>.\<close>

definition pageScriptLoaded :: "nat \<Rightarrow> page \<Rightarrow> page" where
  "pageScriptLoaded n st =
     (if n \<in> set (injectedScripts st)
      then st\<lparr>doc := removeEl n (doc st), injectedScripts := removeAll n (injectedScripts st)\<rparr>
      else st)"

definition onDOMContentLoaded :: "env \<Rightarrow> settings \<Rightarrow> page \<Rightarrow> page" where
  "onDOMContentLoaded env s st =
     stabilizeImageLayout s (injectContentVisibility env s (injectFontDisplaySwap s
       (preloadLCPCandidate env s (setupDNSPrefetch env s (optimizeImageLoading env s
         (reduceMediaPreload s (disableAutoplay s (setupLazyLoadIframes s
           (setupLazyLoading s st)))))))))"

definition onLoad :: "nat \<Rightarrow> settings \<Rightarrow> page \<Rightarrow> page" where
  "onLoad now s st =
     prefetchVisibleLinks s (stabilizeImageLayout s
       (if loadTime (performanceMetrics st) = None
        then st\<lparr>performanceMetrics := (performanceMetrics st)
                  \<lparr>loadTime := Some (now - startTime (performanceMetrics st))\<rparr>\<rparr>
        else st))"

definition applyOptimizations :: "env \<Rightarrow> nat \<Rightarrow> page \<Rightarrow> page" where
  "applyOptimizations env now st =
     (case settings st of
        None \<Rightarrow> st
      | Some s \<Rightarrow>
          if optimizationsApplied st \<or> \<not> opt_enabled s then st
          else (let st1 = disableAnimations s (injectPageScript env (st\<lparr>optimizationsApplied := True\<rparr>));
                    st2 = (case readyState st1 of
                             Loading \<Rightarrow> st1\<lparr>domContentLoadedListener := True, loadListener := True\<rparr>
                           | Interactive \<Rightarrow> (onDOMContentLoaded env s st1)\<lparr>loadListener := True\<rparr>
                           | Complete \<Rightarrow> onLoad now s (onDOMContentLoaded env s st1))
                in setupMutationObserver st2))"

definition removeInjectedStyles :: "page \<Rightarrow> page" where
  "removeInjectedStyles st =
     (let d1 = fold (\<lambda>i d. case getElementById d i of None \<Rightarrow> d | Some el \<Rightarrow> removeEl (nid el) d)
                 [animationsStyleId, contentVisibilityStyleId] (doc st)
      in st\<lparr>doc := mapEls (\<lambda>el. if hasAttribute el ''data-fc-cv''
                                then removeAttribute ''data-fc-cv'' el else el) d1\<rparr>)"

section \<open>Content script: events\<close>

datatype message = SETTINGS_UPDATED settings | GET_METRICS | REFRESH_OPTIMIZATIONS | OtherMessage

definition onMessage :: "env \<Rightarrow> nat \<Rightarrow> message \<Rightarrow> page \<Rightarrow> page" where
  "onMessage env now message st =
     (if \<not> fst (isContextValid st) then snd (isContextValid st)
      else case message of
             SETTINGS_UPDATED s \<Rightarrow>
               (let st1 = st\<lparr>settings := Some s, optimizationsApplied := False\<rparr>
                in if opt_enabled s then applyOptimizations env now st1
                   else removeInjectedStyles (st1\<lparr>observer := False\<rparr>))
           | GET_METRICS \<Rightarrow> st
           | REFRESH_OPTIMIZATIONS \<Rightarrow> applyOptimizations env now (st\<lparr>optimizationsApplied := False\<rparr>)
           | OtherMessage \<Rightarrow> st)"

text \<open>The document's \<open>DOMContentLoaded\<close> and the window's \<open>load\<close> event.\<close>

definition domContentLoaded :: "env \<Rightarrow> page \<Rightarrow> page" where
  "domContentLoaded env st =
     (let st1 = st\<lparr>readyState := Interactive\<rparr>
      in if domContentLoadedListener st1
         then (case settings st1 of None \<Rightarrow> st1 | Some s \<Rightarrow> onDOMContentLoaded env s st1)
         else st1)"

definition windowLoaded :: "nat \<Rightarrow> page \<Rightarrow> page" where
  "windowLoaded now st =
     (let st1 = st\<lparr>readyState := Complete\<rparr>
      in if loadListener st1
         then (case settings st1 of None \<Rightarrow> st1 | Some s \<Rightarrow> onLoad now s st1)
         else st1)"

text \<open>The answer to \<open>GET_SETTINGS\<close> in \<open>init\<close>: an error or no settings, or the settings.\<close>

definition settingsResponse :: "env \<Rightarrow> nat \<Rightarrow> settings option \<Rightarrow> page \<Rightarrow> page" where
  "settingsResponse env now response st =
     (case response of
        None \<Rightarrow> st
      | Some s \<Rightarrow> applyOptimizations env now (st\<lparr>settings := Some s\<rparr>))"

section \<open>Initial state and the event loop\<close>

definition DEFAULT_SETTINGS :: settings where
  "DEFAULT_SETTINGS =
     \<lparr>opt_enabled = True, opt_disableAnimations = True, opt_lazyLoadImages = True,
      opt_disableAutoplay = True, opt_throttleTimers = True, opt_prefetchDNS = True,
      opt_preloadLCP = True, opt_prefetchLinks = False, opt_optimizeImagePriority = True,
      opt_lazyLoadIframes = True, opt_reduceMediaPreload = True, opt_fontDisplaySwap = True,
      opt_contentVisibility = True, opt_stabilizeLayout = True, opt_nonBlockingCSS = True,
      opt_deferScripts = False, opt_passiveListeners = True\<rparr>"

text \<open>The content script's variables as its first lines set them, in a document \<open>d\<close>.\<close>

definition initialPage :: "document \<Rightarrow> readyState \<Rightarrow> nat \<Rightarrow> page" where
  "initialPage d rs now =
     \<lparr>doc = d, readyState = rs, runtime = RuntimeOk, settings = None, observer = False,
      optimizationsApplied = False, cleanupScheduled = False,
      performanceMetrics =
        \<lparr>startTime = now, loadTime = None, animationsDisabled = 0, imagesOptimized = 0,
         iframesLazyLoaded = 0, mediaOptimized = 0, cssNonBlocked = 0, scriptsDeferred = 0,
         linksPrefetched = 0, dnsPrefetched = 0\<rparr>,
      contextValid = True, idleQueue = [], domContentLoadedListener = False,
      loadListener = False, stabilizeListeners = [], mediaListeners = [],
      injectedScripts = [], intersectionObservers = []\<rparr>"

text \<open>
  Everything that can happen to the page: the content script's handlers, and the host
  changing the document, the layout or the extension runtime under it.
\<close>

datatype event =
    Message message
  | SettingsResponse "settings option"
  | DOMContentLoadedEvent
  | LoadEvent
  | Mutations "mutation_node list list"
  | Idle nat
  | Intersections nat "io_entry list"
  | ImageLoad nat
  | StylesheetLoad nat
  | PageScriptLoad nat
  | HostUpdate document runtime

fun step :: "env \<Rightarrow> nat \<Rightarrow> event \<Rightarrow> page \<Rightarrow> page" where
  "step env now (Message m) st = onMessage env now m st"
| "step env now (SettingsResponse r) st = settingsResponse env now r st"
| "step env now DOMContentLoadedEvent st = domContentLoaded env st"
| "step env now LoadEvent st = windowLoaded now st"
| "step env now (Mutations ms) st = mutationCallback env now ms st"
| "step env now (Idle i) st = idleFire env i st"
| "step env now (Intersections k entries) st = ioCallback env now k entries st"
| "step env now (ImageLoad n) st = imageLoaded n st"
| "step env now (StylesheetLoad n) st = stylesheetLoaded n st"
| "step env now (PageScriptLoad n) st = pageScriptLoaded n st"
| "step env now (HostUpdate d r) st = st\<lparr>doc := d, runtime := r\<rparr>"

inductive reachable :: "env \<Rightarrow> page \<Rightarrow> bool" for env :: env where
  reachable_init: "reachable env (initialPage d rs now)"
| reachable_step: "reachable env st \<Longrightarrow> reachable env (step env now ev st)"

section \<open>A concrete page for the examples\<close>

text \<open>A parser for absolute \<open>https\<close> URLs, enough for the examples below.\<close>

definition exampleParse :: "string \<Rightarrow> url option" where
  "exampleParse s =
     (if take 8 s = ''https://'' then
        (let rest = drop 8 s;
             host = takeWhile (\<lambda>c. c \<noteq> CHR ''/'') rest;
             path0 = dropWhile (\<lambda>c. c \<noteq> CHR ''/'') rest;
             path = takeWhile (\<lambda>c. c \<noteq> CHR ''?'') path0;
             query = dropWhile (\<lambda>c. c \<noteq> CHR ''?'') path0
         in Some \<lparr>url_href = (if path0 = [] then s @ ''/'' else s), protocol = ''https:'',
                  origin = ''https://'' @ host,
                  pathname = (if path = [] then ''/'' else path),
                  search = (if query = ''?'' then [] else query)\<rparr>)
      else None)"

definition exampleEnv :: env where
  "exampleEnv =
     \<lparr>location_origin = ''https://site.test'', location_pathname = ''/'',
      parseURL = exampleParse, parseAbsURL = exampleParse,
      innerWidth = 1920, innerHeight = 1080, nativeIdleCallback = True,
      extensionURL = ''chrome-extension://fc/injected.js''\<rparr>"

definition exampleElement :: "nat \<Rightarrow> string \<Rightarrow> (string \<times> string) list \<Rightarrow> rect \<Rightarrow> element" where
  "exampleElement n t as r = (createElement t n)\<lparr>parentTag := ''body'', attrs := map_of as, bbox := r\<rparr>"

definition attrOf :: "document \<Rightarrow> nat \<Rightarrow> string \<Rightarrow> string option" where
  "attrOf d n a = (case getEl d n of None \<Rightarrow> None | Some e \<Rightarrow> attrs e a)"

definition pageWith :: "element list \<Rightarrow> page" where
  "pageWith els = initialPage \<lparr>headEls = [], bodyEls = els\<rparr> Complete 0"

definition heroImage :: element where
  "heroImage = exampleElement 1 ''img'' [(''src'', ''/hero.png'')]
     \<lparr>rect_top = 0, rect_bottom = 900, rect_left = 0, rect_right = 1400\<rparr>"

definition wideImage :: element where
  "wideImage = exampleElement 1 ''img'' [(''src'', ''/wide.png'')]
     \<lparr>rect_top = 100, rect_bottom = 300, rect_left = 2000, rect_right = 2400\<rparr>"

definition plainLink :: element where
  "plainLink = (exampleElement 2 ''link''
      [(''rel'', ''stylesheet''), (''href'', ''https://site.test/a.css'')] zeroRect)\<lparr>parentTag := ''head''\<rparr>"


definition countHints :: "string \<Rightarrow> string \<Rightarrow> element list \<Rightarrow> nat" where
  "countHints r orig els =
     length (filter (\<lambda>l. tag l = ''link'' \<and> attrs l ''rel'' = Some r \<and> attrs l ''href'' = Some orig) els)"

definition injected :: "document \<Rightarrow> document \<Rightarrow> element list" where
  "injected d d' = drop (length (headEls d)) (headEls d')"



section \<open>Notions used in the properties\<close>

text \<open>
  The content script's control state: everything but the document, the metrics and the
  registered one-shot load listeners.
\<close>

definition control ::
  "page \<Rightarrow> settings option \<times> bool \<times> bool \<times> bool \<times> bool \<times> runtime \<times> readyState
           \<times> idle_request list \<times> bool \<times> bool \<times> nat list \<times> io_state list" where
  "control st =
     (settings st, observer st, optimizationsApplied st, cleanupScheduled st, contextValid st,
      runtime st, readyState st, idleQueue st, domContentLoadedListener st, loadListener st,
      injectedScripts st, intersectionObservers st)"




text \<open>A page on which the optimizations have been applied and the observer runs.\<close>

definition runningPage :: "element list \<Rightarrow> page" where
  "runningPage els =
     (pageWith els)\<lparr>settings := Some DEFAULT_SETTINGS, observer := True,
                     optimizationsApplied := True\<rparr>"

definition belowFoldSection :: element where
  "belowFoldSection = exampleElement 3 ''section'' []
     \<lparr>rect_top = 2000, rect_bottom = 2600, rect_left = 0, rect_right = 1000\<rparr>"

definition disabledSettings :: settings where
  "disabledSettings = DEFAULT_SETTINGS\<lparr>opt_enabled := False\<rparr>"

definition loadingPage :: page where
  "loadingPage = initialPage \<lparr>headEls = [], bodyEls = [belowFoldSection]\<rparr> Loading 0"

text \<open>
  What the executors may do to an element: the attributes they write, by tag; the
  relation between an element before and after any number of such writes; and the
  documents that come from a document by such writes and by appending nodes of a given
  kind to the head.
\<close>

definition engineKeys :: "string \<Rightarrow> string set" where
  "engineKeys t =
     {''loading'', ''data-fc-media-opt'', ''preload'', ''data-fc-optimized'', ''decoding'',
      ''fetchpriority'', ''data-fc-cv'', ''data-fc-stabilized'', ''autoplay'', ''media'',
      ''data-fc-nb''}
     \<union> (if t = ''img'' then {''width'', ''height''} else {})"

definition tweaked :: "element \<Rightarrow> element \<Rightarrow> bool" where
  "tweaked e e' =
     (nid e' = nid e \<and> tag e' = tag e \<and> parentTag e' = parentTag e \<and> bbox e' = bbox e
      \<and> naturalWidth e' = naturalWidth e \<and> naturalHeight e' = naturalHeight e
      \<and> (\<forall>k. k \<notin> engineKeys (tag e) \<longrightarrow> attrs e' k = attrs e k)
      \<and> (\<forall>k. k \<noteq> ''autoplay'' \<and> k \<noteq> ''data-fc-cv'' \<and> attrs e k \<noteq> None
             \<longrightarrow> attrs e' k \<noteq> None)
      \<and> (attrs e ''autoplay'' = None \<longrightarrow> attrs e' ''autoplay'' = None)
      \<and> (sheet e' = sheet e \<or> sheet e' = swapSheet (sheet e)))"

inductive evolves :: "(element \<Rightarrow> bool) \<Rightarrow> document \<Rightarrow> document \<Rightarrow> bool"
  for Q :: "element \<Rightarrow> bool" and d :: document where
  evolves_refl: "evolves Q d d"
| evolves_map: "evolves Q d d' \<Longrightarrow> (\<And>e. tweaked e (f e)) \<Longrightarrow> evolves Q d (mapEls f d')"
| evolves_append: "evolves Q d d' \<Longrightarrow> Q x \<Longrightarrow> evolves Q d (appendHead x d')"

text \<open>The nodes the executors other than the link prefetch append to the head.\<close>

definition engineNode :: "element \<Rightarrow> bool" where
  "engineNode x =
     ((tag x = ''link'' \<and> sheet x = NoSheet
         \<and> (attrs x ''rel'' = Some ''dns-prefetch'' \<or> attrs x ''rel'' = Some ''preconnect''
              \<or> attrs x ''rel'' = Some ''preload'')
       \<or> tag x = ''style'' \<and> sheet x = Sheet [OtherRule]
       \<or> tag x = ''script'' \<and> sheet x = NoSheet)
      \<and> attrs x ''role'' = None)"

text \<open>
  The URLs the claim excludes from prefetching: those with a query string or with a
  state-changing path.
\<close>

definition excludedURL :: "env \<Rightarrow> string \<Rightarrow> bool" where
  "excludedURL env href =
     (case parseAbsURL env href of
        None \<Rightarrow> False
      | Some u \<Rightarrow> search u \<noteq> [] \<or> stateChangingPath (pathname u))"

definition prefetchOf :: "idle_request \<Rightarrow> string option" where
  "prefetchOf r = (case task r of CleanupTask \<Rightarrow> None | PrefetchTask k href \<Rightarrow> Some href)"

definition pendingPrefetches :: "page \<Rightarrow> string list" where
  "pendingPrefetches st = List.map_filter prefetchOf (idleQueue st)"

definition isHostUpdate :: "event \<Rightarrow> bool" where
  "isHostUpdate ev = (case ev of HostUpdate d r \<Rightarrow> True | _ \<Rightarrow> False)"

definition logoutLink :: element where
  "logoutLink = exampleElement 4 ''a'' [(''href'', ''https://site.test/logout?token=x'')]
     \<lparr>rect_top = 10, rect_bottom = 30, rect_left = 10, rect_right = 90\<rparr>"

definition prefetchSettings :: settings where
  "prefetchSettings = DEFAULT_SETTINGS\<lparr>opt_prefetchLinks := True\<rparr>"

definition prefetchingPage :: page where
  "prefetchingPage = step exampleEnv 0 (SettingsResponse (Some prefetchSettings))
     (initialPage \<lparr>headEls = [], bodyEls = [logoutLink]\<rparr> Complete 0)"


definition hasId :: "document \<Rightarrow> string \<Rightarrow> bool" where
  "hasId d i = (getElementById d i \<noteq> None)"















definition dnsOnly :: settings where
  "dnsOnly =
     \<lparr>opt_enabled = True, opt_disableAnimations = False, opt_lazyLoadImages = False,
      opt_disableAutoplay = False, opt_throttleTimers = False, opt_prefetchDNS = True,
      opt_preloadLCP = False, opt_prefetchLinks = False, opt_optimizeImagePriority = False,
      opt_lazyLoadIframes = False, opt_reduceMediaPreload = False, opt_fontDisplaySwap = False,
      opt_contentVisibility = False, opt_stabilizeLayout = False, opt_nonBlockingCSS = False,
      opt_deferScripts = False, opt_passiveListeners = False\<rparr>"

text \<open>
  Two runs in which the extension is disabled while a callback is still registered:
  an image is added to a page with the optimizations applied and the disabling update
  arrives before the idle batch runs; and the disabling update arrives while the
  document is still loading.
\<close>

definition lateImage :: element where
  "lateImage = exampleElement 7 ''img'' [(''src'', ''/late.png'')]
     \<lparr>rect_top = 100, rect_bottom = 400, rect_left = 0, rect_right = 400\<rparr>"

definition appliedPage :: page where
  "appliedPage = step exampleEnv 0 (SettingsResponse (Some DEFAULT_SETTINGS))
     (initialPage \<lparr>headEls = [], bodyEls = []\<rparr> Complete 0)"

definition imageAdded :: page where
  "imageAdded = step exampleEnv 500
     (HostUpdate ((doc appliedPage)\<lparr>bodyEls := [lateImage]\<rparr>) RuntimeOk) appliedPage"

definition disabledWhilePending :: page where
  "disabledWhilePending = step exampleEnv 1010 (Message (SETTINGS_UPDATED disabledSettings))
     (step exampleEnv 1000 (Mutations [[ElemNode 7 []]]) imageAdded)"

definition disabledWhileLoading :: page where
  "disabledWhileLoading = step exampleEnv 10 (Message (SETTINGS_UPDATED disabledSettings))
     (step exampleEnv 5 (SettingsResponse (Some DEFAULT_SETTINGS)) loadingPage)"

section \<open>Properties\<close>

subsection \<open>Elements of a document\<close>

lemma allEls_mapEls: "allEls (mapEls f d) = map f (allEls d)"
  by (simp add: allEls_def mapEls_def)

lemma nid_setAttribute: "nid (setAttribute a v e) = nid e"
  by (simp add: setAttribute_def)

lemma find_map_nid:
  assumes "\<And>e. nid (f e) = nid e"
  shows "find (\<lambda>e. nid e = n) (map f xs) = map_option f (find (\<lambda>e. nid e = n) xs)"
  by (induction xs) (simp_all add: assms)

lemma getEl_mapEls:
  assumes "\<And>e. nid (f e) = nid e"
  shows "getEl (mapEls f d) n = map_option f (getEl d n)"
  by (simp add: getEl_def allEls_mapEls find_map_nid assms)

lemma getEl_updateEl:
  assumes "\<And>e. nid (f e) = nid e"
  shows "getEl (updateEl m f d) n = map_option (\<lambda>e. if nid e = m then f e else e) (getEl d n)"
  unfolding updateEl_def by (rule getEl_mapEls) (simp add: assms)

lemma getEl_nid: "getEl d n = Some e \<Longrightarrow> nid e = n"
  by (auto simp: getEl_def dest: find_Some_iff [THEN iffD1])

lemmas example_defs =
  pageWith_def initialPage_def DEFAULT_SETTINGS_def exampleEnv_def exampleElement_def
  createElement_def heroImage_def wideImage_def attrOf_def getEl_def allEls_def mapEls_def
  hasAttribute_def setAttribute_def removeAttribute_def zeroRect_def


subsection \<open>Timer throttling\<close>

text \<open>
  C10. With timer throttling enabled, the patched \<open>setTimeout\<close> and
  \<open>setInterval\<close> call the originals with the same callback and the same extra
  arguments; the delay they pass is the maximum of the requested delay and 10
  (\<open>setTimeout\<close>) or 100 (\<open>setInterval\<close>), an absent delay counting as 0, so it is
  never below the requested delay.
\<close>

theorem throttle_timers_delay:
  assumes "inj_throttleTimers s"
  shows "setTimeout (throttle_timers s w) cb d args
           = setTimeout w cb (Delay (max (delay_or_zero d) 10)) args
       \<and> setInterval (throttle_timers s w) cb d args
           = setInterval w cb (Delay (max (delay_or_zero d) 100)) args
       \<and> delay_or_zero d \<le> max (delay_or_zero d) 10
       \<and> delay_or_zero d \<le> max (delay_or_zero d) 100
       \<and> delay_or_zero Absent = 0
       \<and> delay_or_zero (Delay x) = x"
  using assms by (simp add: throttle_timers_def minInterval_def minTimeout_def delay_or_zero_def)

theorem throttle_timers_delay_witness:
  "inj_throttleTimers \<lparr>inj_throttleTimers = True, inj_passiveListeners = False,
                        inj_deferScripts = False\<rparr>
   \<and> setTimeout (throttle_timers
         \<lparr>inj_throttleTimers = True, inj_passiveListeners = False, inj_deferScripts = False\<rparr>
         \<lparr>setInterval = (\<lambda>cb d args. (cb, d, args)), setTimeout = (\<lambda>cb d args. (cb, d, args))\<rparr>)
       (7::nat) (Delay 3) [1::nat, 2]
     = (7, Delay 10, [1, 2])
   \<and> setInterval (throttle_timers
         \<lparr>inj_throttleTimers = True, inj_passiveListeners = False, inj_deferScripts = False\<rparr>
         \<lparr>setInterval = (\<lambda>cb d args. (cb, d, args)), setTimeout = (\<lambda>cb d args. (cb, d, args))\<rparr>)
       (7::nat) (Delay 250) [1::nat, 2]
     = (7, Delay 250, [1, 2])"
  using throttle_timers_delay
    [of "\<lparr>inj_throttleTimers = True, inj_passiveListeners = False, inj_deferScripts = False\<rparr>"
        "\<lparr>setInterval = (\<lambda>cb d args. (cb, d, args)), setTimeout = (\<lambda>cb d args. (cb, d, args))\<rparr>"
        "7::nat" "Delay 3" "[1::nat, 2]"]
    throttle_timers_delay
    [of "\<lparr>inj_throttleTimers = True, inj_passiveListeners = False, inj_deferScripts = False\<rparr>"
        "\<lparr>setInterval = (\<lambda>cb d args. (cb, d, args)), setTimeout = (\<lambda>cb d args. (cb, d, args))\<rparr>"
        "7::nat" "Delay 250" "[1::nat, 2]"]
  by (simp add: delay_or_zero_def)

subsection \<open>Script deferral\<close>

text \<open>
  C9. A script element with no \<open>src\<close>, with an \<open>async\<close>, \<open>defer\<close>,
  \<open>nomodule\<close> or \<open>integrity\<close> attribute, of type \<open>module\<close>, with a nonce, or
  whose \<open>src\<close> does not parse or has another origin than the page, is left alone by
  \<open>deferScript\<close>: the document is the same afterwards.
\<close>

theorem deferScript_skips:
  assumes "src_prop env script = []
         \<or> hasAttribute script ''async'' \<or> hasAttribute script ''defer''
         \<or> hasAttribute script ''nomodule'' \<or> hasAttribute script ''integrity''
         \<or> reflect script ''type'' = ''module''
         \<or> nonce script \<noteq> []
         \<or> parseURL env (src_prop env script) = None
         \<or> (\<exists>u. parseURL env (src_prop env script) = Some u \<and> origin u \<noteq> location_origin env)"
  shows "deferScript env script d = d"
  using assms by (auto simp: deferScript_def split: option.splits)

theorem deferScript_skips_witness:
  "hasAttribute ((createElement ''script'' 1)\<lparr>attrs := [''src'' \<mapsto> ''/app.js'', ''async'' \<mapsto> []]\<rparr>) ''async''
   \<and> deferScript
        \<lparr>location_origin = ''https://site.test'', location_pathname = ''/'',
         parseURL = (\<lambda>s. None), parseAbsURL = (\<lambda>s. None),
         innerWidth = 1280, innerHeight = 720, nativeIdleCallback = True,
         extensionURL = ''chrome-extension://fc/injected.js''\<rparr>
        ((createElement ''script'' 1)\<lparr>attrs := [''src'' \<mapsto> ''/app.js'', ''async'' \<mapsto> []]\<rparr>)
        \<lparr>headEls = [],
         bodyEls = [(createElement ''script'' 1)\<lparr>attrs := [''src'' \<mapsto> ''/app.js'', ''async'' \<mapsto> []]\<rparr>]\<rparr>
     = \<lparr>headEls = [],
        bodyEls = [(createElement ''script'' 1)\<lparr>attrs := [''src'' \<mapsto> ''/app.js'', ''async'' \<mapsto> []]\<rparr>]\<rparr>"
proof -
  have h: "hasAttribute ((createElement ''script'' 1)\<lparr>attrs := [''src'' \<mapsto> ''/app.js'', ''async'' \<mapsto> []]\<rparr>) ''async''"
    by (simp add: hasAttribute_def createElement_def)
  show ?thesis
    using h deferScript_skips [of _ "(createElement ''script'' 1)\<lparr>attrs := [''src'' \<mapsto> ''/app.js'', ''async'' \<mapsto> []]\<rparr>"]
    by simp
qed

subsection \<open>Image priority and decoding\<close>

lemma nid_optimizeImage: "nid (optimizeImage env e) = nid e"
  by (simp add: optimizeImage_def Let_def nid_setAttribute)

lemma optimizeImage_attrs:
  "attrs (optimizeImage env img) =
     (attrs img)(''data-fc-optimized'' \<mapsto> [],
        ''decoding'' \<mapsto> (case attrs img ''decoding'' of None \<Rightarrow> ''async'' | Some v \<Rightarrow> v),
        ''fetchpriority'' \<mapsto> (case attrs img ''fetchpriority'' of
            Some v \<Rightarrow> v
          | None \<Rightarrow> if rect_top (bbox img) < innerHeight env \<and> rect_bottom (bbox img) > 0
                    then ''high'' else ''low''))"
  by (auto simp: optimizeImage_def Let_def setAttribute_def hasAttribute_def fun_eq_iff
           split: option.splits)

text \<open>
  C4, as the code has it. One run of the priority/decoding executor on an image that is
  not yet claimed claims it, gives it \<open>decoding="async"\<close> unless it has a
  \<open>decoding\<close> attribute, and, unless it has a \<open>fetchpriority\<close> attribute, gives it
  \<open>fetchpriority="high"\<close> exactly when its bounding box overlaps the viewport
  vertically (top above the viewport's lower edge, bottom below its upper edge) and
  \<open>"low"\<close> otherwise; the horizontal position plays no part. Attributes that were
  there, and every other attribute, are as before.
\<close>

theorem optimizeImageLoading_hints:
  assumes "opt_optimizeImagePriority s"
    and "getEl (doc st) n = Some img"
    and "tag img = ''img''"
    and "\<not> hasAttribute img ''data-fc-optimized''"
  shows "attrOf (doc (optimizeImageLoading env s st)) n ''data-fc-optimized'' \<noteq> None
       \<and> attrOf (doc (optimizeImageLoading env s st)) n ''decoding''
           = Some (case attrs img ''decoding'' of None \<Rightarrow> ''async'' | Some v \<Rightarrow> v)
       \<and> attrOf (doc (optimizeImageLoading env s st)) n ''fetchpriority''
           = Some (case attrs img ''fetchpriority'' of
                     Some v \<Rightarrow> v
                   | None \<Rightarrow> if rect_top (bbox img) < innerHeight env \<and> rect_bottom (bbox img) > 0
                             then ''high'' else ''low'')
       \<and> (\<forall>a. a \<noteq> ''data-fc-optimized'' \<and> a \<noteq> ''decoding'' \<and> a \<noteq> ''fetchpriority''
              \<longrightarrow> attrOf (doc (optimizeImageLoading env s st)) n a = attrs img a)"
proof -
  have "getEl (doc (optimizeImageLoading env s st)) n = Some (optimizeImage env img)"
    using assms
    by (simp add: optimizeImageLoading_def getEl_mapEls nid_optimizeImage unoptimizedImage_def)
  then show ?thesis
    by (simp add: attrOf_def optimizeImage_attrs)
qed

theorem optimizeImageLoading_hints_witness:
  "opt_optimizeImagePriority DEFAULT_SETTINGS
   \<and> getEl (doc (pageWith [heroImage])) 1 = Some heroImage
   \<and> tag heroImage = ''img''
   \<and> \<not> hasAttribute heroImage ''data-fc-optimized''
   \<and> attrOf (doc (optimizeImageLoading exampleEnv DEFAULT_SETTINGS (pageWith [heroImage]))) 1
        ''fetchpriority'' = Some ''high''
   \<and> attrOf (doc (optimizeImageLoading exampleEnv DEFAULT_SETTINGS (pageWith [heroImage]))) 1
        ''decoding'' = Some ''async''"
proof -
  have h: "opt_optimizeImagePriority DEFAULT_SETTINGS
           \<and> getEl (doc (pageWith [heroImage])) 1 = Some heroImage
           \<and> tag heroImage = ''img'' \<and> \<not> hasAttribute heroImage ''data-fc-optimized''"
    by (simp add: example_defs)
  have v: "rect_top (bbox heroImage) < innerHeight exampleEnv \<and> rect_bottom (bbox heroImage) > 0
           \<and> attrs heroImage ''fetchpriority'' = None \<and> attrs heroImage ''decoding'' = None"
    by (simp add: example_defs)
  show ?thesis
    using h v optimizeImageLoading_hints
      [of DEFAULT_SETTINGS "pageWith [heroImage]" 1 heroImage exampleEnv]
    by simp
qed

text \<open>
  The claim as written ties \<open>"high"\<close> to the bounding box intersecting the viewport.
  An image beside the viewport, at the height of the viewport, gets \<open>"high"\<close>.
\<close>

theorem optimizeImageLoading_viewport_counterexample:
  "getEl (doc (pageWith [wideImage])) 1 = Some wideImage
   \<and> tag wideImage = ''img''
   \<and> \<not> hasAttribute wideImage ''data-fc-optimized''
   \<and> \<not> hasAttribute wideImage ''fetchpriority''
   \<and> \<not> inViewport exampleEnv (bbox wideImage)
   \<and> attrOf (doc (optimizeImageLoading exampleEnv DEFAULT_SETTINGS (pageWith [wideImage]))) 1
        ''fetchpriority'' = Some ''high''"
  by (simp add: example_defs optimizeImageLoading_def unoptimizedImage_def optimizeImage_def
        inViewport_def)

subsection \<open>Render-blocking stylesheets\<close>

text \<open>
  C5, as the code has it. \<open>handleNewStylesheet\<close> changes something only for a link
  with \<open>rel="stylesheet"\<close> whose sheet has not loaded and whose \<open>media\<close> is
  empty or \<open>all\<close>. When it applies, the link is claimed (\<open>data-fc-nb\<close>), its
  \<open>media\<close> becomes \<open>print\<close>, and a one-shot load listener is registered; when
  the load event comes, \<open>media\<close> is set to \<open>all\<close> (whatever it was before),
  and the listener is gone.
\<close>

theorem handleNewStylesheet_mitigation:
  assumes "getEl (doc st) n = Some link"
  shows "(handleNewStylesheet env s n st \<noteq> st \<longrightarrow>
            reflect link ''rel'' = ''stylesheet'' \<and> sheet link = NoSheet
            \<and> (reflect link ''media'' = [] \<or> reflect link ''media'' = ''all''))
       \<and> (opt_nonBlockingCSS s \<and> reflect link ''rel'' = ''stylesheet''
            \<and> truthy (href_prop env link) \<and> \<not> hasAttribute link ''data-fc-nb''
            \<and> sheet link = NoSheet
            \<and> (reflect link ''media'' = [] \<or> reflect link ''media'' = ''all'') \<longrightarrow>
            attrOf (doc (handleNewStylesheet env s n st)) n ''data-fc-nb'' \<noteq> None
            \<and> attrOf (doc (handleNewStylesheet env s n st)) n ''media'' = Some ''print''
            \<and> n \<in> set (mediaListeners (handleNewStylesheet env s n st))
            \<and> attrOf (doc (stylesheetLoaded n (handleNewStylesheet env s n st))) n ''media''
                = Some ''all''
            \<and> n \<notin> set (mediaListeners (stylesheetLoaded n (handleNewStylesheet env s n st))))"
proof -
  have n: "nid link = n"
    using assms by (rule getEl_nid)
  show ?thesis
    using assms n
    by (auto simp: handleNewStylesheet_def stylesheetLoaded_def attrOf_def getEl_updateEl
          nid_setAttribute setAttribute_def)
qed

theorem handleNewStylesheet_mitigation_witness:
  "getEl (doc (pageWith [plainLink])) 2 = Some plainLink
   \<and> handleNewStylesheet exampleEnv DEFAULT_SETTINGS 2 (pageWith [plainLink]) \<noteq> pageWith [plainLink]
   \<and> opt_nonBlockingCSS DEFAULT_SETTINGS \<and> reflect plainLink ''rel'' = ''stylesheet''
   \<and> truthy (href_prop exampleEnv plainLink) \<and> \<not> hasAttribute plainLink ''data-fc-nb''
   \<and> sheet plainLink = NoSheet \<and> reflect plainLink ''media'' = []
   \<and> attrOf (doc (handleNewStylesheet exampleEnv DEFAULT_SETTINGS 2 (pageWith [plainLink]))) 2
        ''media'' = Some ''print''
   \<and> attrOf (doc (stylesheetLoaded 2
          (handleNewStylesheet exampleEnv DEFAULT_SETTINGS 2 (pageWith [plainLink])))) 2
        ''media'' = Some ''all''"
proof -
  have h: "getEl (doc (pageWith [plainLink])) 2 = Some plainLink"
    by (simp add: example_defs plainLink_def)
  have a: "opt_nonBlockingCSS DEFAULT_SETTINGS \<and> reflect plainLink ''rel'' = ''stylesheet''
           \<and> truthy (href_prop exampleEnv plainLink) \<and> \<not> hasAttribute plainLink ''data-fc-nb''
           \<and> sheet plainLink = NoSheet \<and> reflect plainLink ''media'' = []"
    by (simp add: example_defs plainLink_def reflect_def truthy_def href_prop_def reflectURL_def
          exampleParse_def Let_def)
  have "mediaListeners (handleNewStylesheet exampleEnv DEFAULT_SETTINGS 2 (pageWith [plainLink])) = [2]"
    using h a by (simp add: handleNewStylesheet_def) (simp add: pageWith_def initialPage_def)
  moreover have "mediaListeners (pageWith [plainLink]) = []"
    by (simp add: pageWith_def initialPage_def)
  ultimately have ne:
    "handleNewStylesheet exampleEnv DEFAULT_SETTINGS 2 (pageWith [plainLink]) \<noteq> pageWith [plainLink]"
    by auto
  show ?thesis
    using h a ne handleNewStylesheet_mitigation [OF h, of exampleEnv DEFAULT_SETTINGS]
    by simp
qed

text \<open>
  The claim as written has the load callback restore the original value. A link
  without a \<open>media\<close> attribute has \<open>media="all"\<close> after the callback.
\<close>

theorem handleNewStylesheet_restore_counterexample:
  "getEl (doc (pageWith [plainLink])) 2 = Some plainLink
   \<and> attrs plainLink ''media'' = None
   \<and> attrOf (doc (stylesheetLoaded 2 (handleNewStylesheet exampleEnv DEFAULT_SETTINGS 2
        (pageWith [plainLink])))) 2 ''media'' = Some ''all''"
  by (simp add: example_defs plainLink_def handleNewStylesheet_def stylesheetLoaded_def
       updateEl_def reflect_def truthy_def href_prop_def reflectURL_def exampleParse_def Let_def)

subsection \<open>DNS prefetch and preconnect hints\<close>















subsection \<open>Control state\<close>

lemma control_setupLazyLoading: "control (setupLazyLoading s st) = control st"
  by (simp add: control_def setupLazyLoading_def)

lemma control_setupLazyLoadIframes: "control (setupLazyLoadIframes s st) = control st"
  by (simp add: control_def setupLazyLoadIframes_def)

lemma control_disableAutoplay: "control (disableAutoplay s st) = control st"
  by (simp add: control_def disableAutoplay_def)

lemma control_reduceMediaPreload: "control (reduceMediaPreload s st) = control st"
  by (simp add: control_def reduceMediaPreload_def)

lemma control_optimizeImageLoading: "control (optimizeImageLoading env s st) = control st"
  by (simp add: control_def optimizeImageLoading_def)

lemma control_dnsLoop: "control (dnsLoop os c st) = control st"
  by (induction os c st rule: dnsLoop.induct) (simp_all add: control_def)

lemma control_setupDNSPrefetch: "control (setupDNSPrefetch env s st) = control st"
  by (simp add: setupDNSPrefetch_def control_dnsLoop)

lemma control_preloadLCPCandidate: "control (preloadLCPCandidate env s st) = control st"
  by (simp add: control_def preloadLCPCandidate_def split: prod.splits option.splits)

lemma control_injectFontDisplaySwap: "control (injectFontDisplaySwap s st) = control st"
  by (simp add: control_def injectFontDisplaySwap_def)

lemma control_injectContentVisibility: "control (injectContentVisibility env s st) = control st"
  by (simp add: control_def injectContentVisibility_def Let_def)

lemma control_stabilizeImageLayout: "control (stabilizeImageLayout s st) = control st"
  by (simp add: control_def stabilizeImageLayout_def)

lemma control_disableAnimations: "control (disableAnimations s st) = control st"
  by (simp add: control_def disableAnimations_def)

lemma control_handleNewStylesheet: "control (handleNewStylesheet env s n st) = control st"
  by (simp add: control_def handleNewStylesheet_def split: option.splits)

lemma control_fold_handleNewStylesheet:
  "control (fold (handleNewStylesheet env s) links st) = control st"
  by (induction links arbitrary: st) (simp_all add: control_handleNewStylesheet)

lemma control_triageNode: "control (triageNode env s node st) = control st"
  by (simp add: triageNode_def control_fold_handleNewStylesheet control_handleNewStylesheet
        split: mutation_node.splits)

lemma control_fold_triageNode: "control (fold (triageNode env s) nodes st) = control st"
  by (induction nodes arbitrary: st) (simp_all add: control_triageNode)

lemmas control_executors =
  control_setupLazyLoading control_setupLazyLoadIframes control_disableAutoplay
  control_reduceMediaPreload control_optimizeImageLoading control_setupDNSPrefetch
  control_preloadLCPCandidate control_injectFontDisplaySwap control_injectContentVisibility
  control_stabilizeImageLayout control_disableAnimations

lemma control_onDOMContentLoaded: "control (onDOMContentLoaded env s st) = control st"
  by (simp add: onDOMContentLoaded_def control_executors)


subsection \<open>Idle batch scheduling\<close>





subsection \<open>Disabling the extension\<close>

lemmas run_defs =
  runningPage_def disabledSettings_def belowFoldSection_def
  mutationCallback_def isContextValid_def triageNode_def isElemNode_def scheduleCleanup_def
  requestIdleCallback_def onMessage_def removeInjectedStyles_def getElementById_def
  idleFire_def runIdleTask_def cleanupBatch_def setupLazyLoading_def setupLazyLoadIframes_def
  optimizeImageLoading_def disableAutoplay_def reduceMediaPreload_def stabilizeImageLayout_def
  lazyIframe_def unoptimizedImage_def optimizeImage_def mediaCandidate_def unstabilized_def
  sized_def animationsStyleId_def contentVisibilityStyleId_def Let_def

lemmas pass_defs =
  settingsResponse_def applyOptimizations_def injectPageScript_def disableAnimations_def
  setupMutationObserver_def domContentLoaded_def onDOMContentLoaded_def
  setupDNSPrefetch_def collectOrigins_def dnsSelected_def addOrigin_def resourceURL_def
  or_else_def truthy_def href_prop_def reflectURL_def src_prop_def exampleParse_def
  preloadLCPCandidate_def largerImage_def inViewport_def injectFontDisplaySwap_def swapSheet_def
  injectContentVisibility_def belowFold_def cvCandidate_def rect_height_def rect_width_def
  styleElement_def appendHead_def freshNid_def removeEl_def injectedSettingsJSON_def json_bool_def

text \<open>
  C1 at two concrete runs. An image is added while the extension is enabled, and the
  cleanup batch is scheduled. The settings update with \<open>enabled = false\<close> arrives
  before the batch runs: the observer is disconnected, but the batch stays in the idle
  queue, and when the host runs it the image gets \<open>loading="lazy"\<close>. In the same
  way the \<open>DOMContentLoaded\<close> listener registered while the document was loading
  stays registered: when the event comes after the disabling update, the executors
  run and the content-visibility style is injected.
\<close>

theorem disable_pending_cleanup:
  "map_option opt_enabled (settings disabledWhilePending) = Some False
   \<and> \<not> observer disabledWhilePending
   \<and> map task (idleQueue disabledWhilePending) = [CleanupTask]
   \<and> attrOf (doc disabledWhilePending) 7 ''loading'' = None
   \<and> attrOf (doc (step exampleEnv 1100 (Idle 0) disabledWhilePending)) 7 ''loading'' = Some ''lazy''
   \<and> map_option opt_enabled (settings disabledWhileLoading) = Some False
   \<and> \<not> hasId (doc disabledWhileLoading) contentVisibilityStyleId
   \<and> hasId (doc (step exampleEnv 20 DOMContentLoadedEvent disabledWhileLoading))
        contentVisibilityStyleId"
  by code_simp

subsection \<open>What the executors do to the document\<close>

lemma swapSheet_idem: "swapSheet (swapSheet sh) = swapSheet sh"
  by (cases sh) (simp_all add: swapSheet_def swapRule_def split: css_rule.splits)

lemma tweaked_refl: "tweaked e e"
  by (simp add: tweaked_def)

lemma tweaked_trans: "tweaked a b \<Longrightarrow> tweaked b c \<Longrightarrow> tweaked a c"
  unfolding tweaked_def using swapSheet_idem by (elim conjE, intro conjI) (simp_all, metis+)

lemma tweaked_setAttribute: "k \<in> engineKeys (tag e) \<Longrightarrow> k \<noteq> ''autoplay'' \<Longrightarrow> tweaked e (setAttribute k v e)"
  by (auto simp: tweaked_def setAttribute_def)

lemma tag_setAttribute: "tag (setAttribute k v e) = tag e"
  by (simp add: setAttribute_def)

lemma tweaked_then_setAttribute:
  "tweaked e e' \<Longrightarrow> k \<in> engineKeys (tag e) \<Longrightarrow> k \<noteq> ''autoplay'' \<Longrightarrow> tweaked e (setAttribute k v e')"
  by (rule tweaked_trans, assumption, rule tweaked_setAttribute) (simp_all add: tweaked_def)

lemma tweaked_optimizeImage: "tweaked e (optimizeImage env e)"
  by (simp add: optimizeImage_def Let_def tweaked_then_setAttribute tweaked_setAttribute
        engineKeys_def)

lemma tweaked_stabilizeImage: "tag e = ''img'' \<Longrightarrow> tweaked e (stabilizeImage e)"
  by (auto simp: stabilizeImage_def tweaked_def setAttribute_def engineKeys_def)

lemma evolves_trans:
  assumes "evolves Q d d'" and "evolves Q d' d''"
  shows "evolves Q d d''"
  using assms(2,1) by (induction rule: evolves.induct) (auto intro: evolves.intros)

lemma evolves_mono: "evolves Q d d' \<Longrightarrow> (\<And>x. Q x \<Longrightarrow> Q' x) \<Longrightarrow> evolves Q' d d'"
  by (induction rule: evolves.induct) (auto intro: evolves.intros)

lemma evolves_mapEls: "(\<And>e. tweaked e (f e)) \<Longrightarrow> evolves Q d (mapEls f d)"
  by (rule evolves_map [OF evolves_refl])

lemma evolves_updateEl: "(\<And>e. tweaked e (f e)) \<Longrightarrow> evolves Q d (updateEl n f d)"
  unfolding updateEl_def by (rule evolves_mapEls) (simp add: tweaked_refl)

lemma evolves_appendHead: "Q x \<Longrightarrow> evolves Q d (appendHead x d)"
  by (rule evolves_append [OF evolves_refl])

lemma evolves_setupLazyLoading: "evolves Q (doc st) (doc (setupLazyLoading s st))"
  by (auto simp: setupLazyLoading_def engineKeys_def
        intro!: evolves_refl evolves_mapEls tweaked_refl tweaked_setAttribute)

lemma evolves_setupLazyLoadIframes: "evolves Q (doc st) (doc (setupLazyLoadIframes s st))"
  by (auto simp: setupLazyLoadIframes_def engineKeys_def
        intro!: evolves_refl evolves_mapEls tweaked_refl tweaked_setAttribute)

lemma tweaked_removeAutoplay: "tweaked m ((removeAttribute ''autoplay'' m)\<lparr>paused := True\<rparr>)"
  by (auto simp: tweaked_def removeAttribute_def engineKeys_def)

lemma evolves_disableAutoplay: "evolves Q (doc st) (doc (disableAutoplay s st))"
  by (auto simp: disableAutoplay_def
        intro!: evolves_refl evolves_mapEls tweaked_refl tweaked_removeAutoplay)

lemma evolves_reduceMediaPreload: "evolves Q (doc st) (doc (reduceMediaPreload s st))"
  by (auto simp: reduceMediaPreload_def Let_def engineKeys_def tag_setAttribute
        intro!: evolves_refl evolves_mapEls tweaked_refl tweaked_setAttribute
                tweaked_then_setAttribute)

lemma evolves_optimizeImageLoading: "evolves Q (doc st) (doc (optimizeImageLoading env s st))"
  by (auto simp: optimizeImageLoading_def
        intro!: evolves_refl evolves_mapEls tweaked_refl tweaked_optimizeImage)

lemma engineNode_dnsLink: "engineNode (dnsLink orig n)"
  by (simp add: engineNode_def dnsLink_def createElement_def)

lemma engineNode_preconnectLink: "engineNode (preconnectLink orig n)"
  by (simp add: engineNode_def preconnectLink_def createElement_def)

lemma engineNode_preloadLink: "engineNode (preloadLink u n)"
  by (simp add: engineNode_def preloadLink_def createElement_def)

lemma engineNode_styleElement: "engineNode (styleElement i css n)"
  by (simp add: engineNode_def styleElement_def createElement_def)

lemma evolves_addHints: "evolves engineNode d (addHints orig d)"
  unfolding addHints_def Let_def
  by (intro evolves_append evolves_refl engineNode_dnsLink engineNode_preconnectLink)

lemma evolves_dnsLoop:
  "evolves engineNode d (doc st) \<Longrightarrow> evolves engineNode d (doc (dnsLoop os c st))"
proof (induction os c st rule: dnsLoop.induct)
  case (1 count st)
  then show ?case by simp
next
  case (2 orig rest count st)
  then show ?case
    by (auto intro: evolves_trans [OF _ evolves_addHints])
qed

lemma evolves_setupDNSPrefetch: "evolves engineNode (doc st) (doc (setupDNSPrefetch env s st))"
  by (simp add: setupDNSPrefetch_def evolves_dnsLoop evolves_refl)

lemma evolves_preloadLCPCandidate:
  "evolves engineNode (doc st) (doc (preloadLCPCandidate env s st))"
  by (auto simp: preloadLCPCandidate_def split: prod.splits option.splits
        intro!: evolves_refl evolves_appendHead engineNode_preloadLink)

lemma evolves_injectFontDisplaySwap: "evolves Q (doc st) (doc (injectFontDisplaySwap s st))"
  by (auto simp: injectFontDisplaySwap_def tweaked_def intro!: evolves_refl evolves_mapEls)

lemma evolves_injectContentVisibility:
  "evolves engineNode (doc st) (doc (injectContentVisibility env s st))"
  by (auto simp: injectContentVisibility_def Let_def engineKeys_def
        intro!: evolves_refl evolves_mapEls evolves_append engineNode_styleElement
                tweaked_refl tweaked_setAttribute)

lemma evolves_stabilizeImageLayout: "evolves Q (doc st) (doc (stabilizeImageLayout s st))"
  by (auto simp: stabilizeImageLayout_def unstabilized_def
        intro!: evolves_refl evolves_mapEls tweaked_refl tweaked_stabilizeImage)

lemma evolves_disableAnimations: "evolves engineNode (doc st) (doc (disableAnimations s st))"
  by (auto simp: disableAnimations_def
        intro!: evolves_refl evolves_appendHead engineNode_styleElement)

lemma evolves_injectPageScript: "evolves engineNode (doc st) (doc (injectPageScript env st))"
  by (auto simp: injectPageScript_def isContextValid_def engineNode_def createElement_def
        split: option.splits runtime.splits
        intro!: evolves_refl evolves_appendHead)

lemma evolves_handleNewStylesheet: "evolves Q (doc st) (doc (handleNewStylesheet env s n st))"
  by (auto simp: handleNewStylesheet_def engineKeys_def tag_setAttribute split: option.splits
        intro!: evolves_refl evolves_updateEl tweaked_then_setAttribute tweaked_setAttribute)

lemma evolves_stylesheetLoaded: "evolves Q (doc st) (doc (stylesheetLoaded n st))"
  by (auto simp: stylesheetLoaded_def engineKeys_def
        intro!: evolves_refl evolves_updateEl tweaked_setAttribute)

lemma evolves_fold_handleNewStylesheet:
  "evolves Q d (doc st) \<Longrightarrow> evolves Q d (doc (fold (handleNewStylesheet env s) links st))"
  by (induction links arbitrary: st)
     (auto intro: evolves_trans [OF _ evolves_handleNewStylesheet])

lemma evolves_triageNode: "evolves Q (doc st) (doc (triageNode env s node st))"
  by (auto simp: triageNode_def split: mutation_node.splits
        intro!: evolves_refl evolves_fold_handleNewStylesheet evolves_handleNewStylesheet)

lemma evolves_fold_triageNode:
  "evolves Q d (doc st) \<Longrightarrow> evolves Q d (doc (fold (triageNode env s) nodes st))"
  by (induction nodes arbitrary: st) (auto intro: evolves_trans [OF _ evolves_triageNode])

lemma doc_scheduleCleanup: "doc (scheduleCleanup env now st) = doc st"
  by (simp add: scheduleCleanup_def isContextValid_def split: runtime.splits)

lemma evolves_mutationCallback: "evolves Q (doc st) (doc (mutationCallback env now ms st))"
  by (auto simp: mutationCallback_def isContextValid_def Let_def doc_scheduleCleanup
        split: option.splits runtime.splits
        intro!: evolves_refl evolves_fold_triageNode)

lemma evolves_onDOMContentLoaded:
  "evolves engineNode (doc st) (doc (onDOMContentLoaded env s st))"
  unfolding onDOMContentLoaded_def
  by (intro evolves_trans [OF _ evolves_stabilizeImageLayout]
        evolves_trans [OF _ evolves_injectContentVisibility]
        evolves_trans [OF _ evolves_injectFontDisplaySwap]
        evolves_trans [OF _ evolves_preloadLCPCandidate]
        evolves_trans [OF _ evolves_setupDNSPrefetch]
        evolves_trans [OF _ evolves_optimizeImageLoading]
        evolves_trans [OF _ evolves_reduceMediaPreload]
        evolves_trans [OF _ evolves_disableAutoplay]
        evolves_trans [OF _ evolves_setupLazyLoadIframes]
        evolves_setupLazyLoading)

lemma evolves_cleanupBatch: "evolves Q (doc st) (doc (cleanupBatch env st))"
proof -
  have "evolves Q (doc st0) (doc (stabilizeImageLayout s (reduceMediaPreload s (disableAutoplay s
          (optimizeImageLoading env s (setupLazyLoadIframes s (setupLazyLoading s st0)))))))"
    for s st0
    by (intro evolves_trans [OF _ evolves_stabilizeImageLayout]
          evolves_trans [OF _ evolves_reduceMediaPreload]
          evolves_trans [OF _ evolves_disableAutoplay]
          evolves_trans [OF _ evolves_optimizeImageLoading]
          evolves_trans [OF _ evolves_setupLazyLoadIframes]
          evolves_setupLazyLoading)
  from this [of "st\<lparr>cleanupScheduled := False\<rparr>"] show ?thesis
    by (auto simp: cleanupBatch_def Let_def isContextValid_def
          split: option.splits runtime.splits intro: evolves_refl)
qed

lemma doc_prefetchVisibleLinks: "doc (prefetchVisibleLinks s st) = doc st"
  by (simp add: prefetchVisibleLinks_def)

lemma evolves_onLoad: "evolves Q (doc st) (doc (onLoad now s st))"
  using evolves_stabilizeImageLayout [of Q "st\<lparr>performanceMetrics := (performanceMetrics st)
                  \<lparr>loadTime := Some (now - startTime (performanceMetrics st))\<rparr>\<rparr>" s]
    evolves_stabilizeImageLayout [of Q st s]
  by (simp add: onLoad_def doc_prefetchVisibleLinks)

lemma evolves_applyOptimizations:
  "evolves engineNode (doc st) (doc (applyOptimizations env now st))"
proof (cases "settings st")
  case None
  then show ?thesis by (simp add: applyOptimizations_def evolves_refl)
next
  case (Some s)
  let ?st1 = "disableAnimations s (injectPageScript env (st\<lparr>optimizationsApplied := True\<rparr>))"
  have e0: "evolves engineNode (doc st)
              (doc (injectPageScript env (st\<lparr>optimizationsApplied := True\<rparr>)))"
    using evolves_injectPageScript [of "st\<lparr>optimizationsApplied := True\<rparr>" env] by simp
  have e1: "evolves engineNode (doc st) (doc ?st1)"
    by (rule evolves_trans [OF e0 evolves_disableAnimations])
  have e2: "evolves engineNode (doc st) (doc (onDOMContentLoaded env s ?st1))"
    by (rule evolves_trans [OF e1 evolves_onDOMContentLoaded])
  have e3: "evolves engineNode (doc st) (doc (onLoad now s (onDOMContentLoaded env s ?st1)))"
    by (rule evolves_trans [OF e2 evolves_onLoad])
  show ?thesis
    using Some e1 e2 e3
    by (simp add: applyOptimizations_def Let_def setupMutationObserver_def evolves_refl
          split: readyState.splits)
qed

subsection \<open>Links with a given \<open>rel\<close> and \<open>href\<close>\<close>

lemma countHints_append: "countHints r h (xs @ ys) = countHints r h xs + countHints r h ys"
  by (simp add: countHints_def)

lemma countHints_map:
  assumes "\<And>e. tag (f e) = tag e \<and> attrs (f e) ''rel'' = attrs e ''rel''
               \<and> attrs (f e) ''href'' = attrs e ''href''"
  shows "countHints r h (map f xs) = countHints r h xs"
  by (induction xs) (simp_all add: countHints_def assms)

lemma countHints_filter: "countHints r h (filter P xs) \<le> countHints r h xs"
  by (induction xs) (simp_all add: countHints_def)

lemma countHints_mapEls:
  assumes "\<And>e. tag (f e) = tag e \<and> attrs (f e) ''rel'' = attrs e ''rel''
               \<and> attrs (f e) ''href'' = attrs e ''href''"
  shows "countHints r h (allEls (mapEls f d)) = countHints r h (allEls d)"
  by (simp add: allEls_mapEls countHints_map assms)

lemma countHints_appendHead:
  "countHints r h (allEls (appendHead x d)) = countHints r h (allEls d) + countHints r h [x]"
  by (simp add: allEls_def appendHead_def countHints_def)

lemma countHints_removeEl: "countHints r h (allEls (removeEl n d)) \<le> countHints r h (allEls d)"
  by (simp add: allEls_def removeEl_def countHints_append add_mono countHints_filter)

lemma tweaked_link:
  "tweaked e e' \<Longrightarrow> tag e' = tag e \<and> attrs e' ''rel'' = attrs e ''rel'' \<and> attrs e' ''href'' = attrs e ''href''"
  by (simp add: tweaked_def engineKeys_def)

lemma countHints_evolves:
  assumes "evolves Q d d'" and "\<And>x. Q x \<Longrightarrow> countHints r h [x] = 0"
  shows "countHints r h (allEls d') = countHints r h (allEls d)"
  using assms
  by (induction rule: evolves.induct)
     (simp_all add: countHints_mapEls tweaked_link countHints_appendHead)

lemma engineNode_not_prefetch: "engineNode x \<Longrightarrow> countHints ''prefetch'' h [x] = 0"
  by (auto simp: engineNode_def countHints_def)

subsection \<open>Link prefetch\<close>

lemma idleQueue_control: "control a = control b \<Longrightarrow> idleQueue a = idleQueue b"
  by (simp add: control_def)

lemma idleQueue_injectPageScript: "idleQueue (injectPageScript env st) = idleQueue st"
  by (simp add: injectPageScript_def isContextValid_def split: option.splits runtime.splits)

lemma idleQueue_onLoad: "idleQueue (onLoad now s st) = idleQueue st"
  by (simp add: onLoad_def prefetchVisibleLinks_def
        idleQueue_control [OF control_stabilizeImageLayout])

lemma idleQueue_applyOptimizations: "idleQueue (applyOptimizations env now st) = idleQueue st"
  by (simp add: applyOptimizations_def Let_def setupMutationObserver_def idleQueue_onLoad
        idleQueue_control [OF control_onDOMContentLoaded]
        idleQueue_control [OF control_disableAnimations] idleQueue_injectPageScript
        split: option.splits readyState.splits)

lemma idleQueue_removeInjectedStyles: "idleQueue (removeInjectedStyles st) = idleQueue st"
  by (simp add: removeInjectedStyles_def Let_def)

lemma idleQueue_onMessage: "idleQueue (onMessage env now m st) = idleQueue st"
  by (simp add: onMessage_def isContextValid_def Let_def idleQueue_applyOptimizations
        idleQueue_removeInjectedStyles split: message.splits runtime.splits)

lemma idleQueue_settingsResponse: "idleQueue (settingsResponse env now r st) = idleQueue st"
  by (simp add: settingsResponse_def idleQueue_applyOptimizations split: option.splits)

lemma idleQueue_domContentLoaded: "idleQueue (domContentLoaded env st) = idleQueue st"
  by (simp add: domContentLoaded_def Let_def idleQueue_control [OF control_onDOMContentLoaded]
        split: option.splits)

lemma idleQueue_windowLoaded: "idleQueue (windowLoaded now st) = idleQueue st"
  by (simp add: windowLoaded_def Let_def idleQueue_onLoad split: option.splits)

lemma pendingPrefetches_append:
  "pendingPrefetches (st\<lparr>idleQueue := q @ [r]\<rparr>)
     = pendingPrefetches (st\<lparr>idleQueue := q\<rparr>) @ (case prefetchOf r of None \<Rightarrow> [] | Some h \<Rightarrow> [h])"
  by (simp add: pendingPrefetches_def map_filter_def split: option.splits)

lemma pendingPrefetches_scheduleCleanup:
  "pendingPrefetches (scheduleCleanup env now st) = pendingPrefetches st"
  by (simp add: scheduleCleanup_def isContextValid_def pendingPrefetches_def map_filter_def
        requestIdleCallback_def prefetchOf_def split: runtime.splits)

lemma pendingPrefetches_mutationCallback:
  "pendingPrefetches (mutationCallback env now ms st) = pendingPrefetches st"
proof -
  have "idleQueue (fold (triageNode env s) (concat ms) st) = idleQueue st" for s
    by (rule idleQueue_control [OF control_fold_triageNode])
  then have "pendingPrefetches (fold (triageNode env s) (concat ms) st) = pendingPrefetches st" for s
    by (simp add: pendingPrefetches_def)
  moreover have "pendingPrefetches (st\<lparr>contextValid := False, observer := False\<rparr>)
      = pendingPrefetches st"
    by (simp add: pendingPrefetches_def)
  ultimately show ?thesis
    by (simp add: mutationCallback_def isContextValid_def Let_def pendingPrefetches_scheduleCleanup
          split: option.splits runtime.splits)
qed

lemma idleQueue_cleanupBatch: "idleQueue (cleanupBatch env st) = idleQueue st"
  by (simp add: cleanupBatch_def Let_def isContextValid_def
        idleQueue_control [OF control_stabilizeImageLayout]
        idleQueue_control [OF control_reduceMediaPreload]
        idleQueue_control [OF control_disableAutoplay]
        idleQueue_control [OF control_optimizeImageLoading]
        idleQueue_control [OF control_setupLazyLoadIframes]
        idleQueue_control [OF control_setupLazyLoading]
        split: option.splits runtime.splits)

lemma idleQueue_injectPrefetch: "idleQueue (injectPrefetch k h st) = idleQueue st"
  by (simp add: injectPrefetch_def)

lemma set_map_filter_remove:
  "set (List.map_filter f (take i xs @ drop (Suc i) xs)) \<subseteq> set (List.map_filter f xs)"
proof -
  have "set (take i xs @ drop (Suc i) xs) \<subseteq> set xs"
    by (auto dest: in_set_takeD in_set_dropD)
  then show ?thesis
    by (auto simp: map_filter_def)
qed

lemma pendingPrefetches_idleFire:
  "set (pendingPrefetches (idleFire env i st)) \<subseteq> set (pendingPrefetches st)"
  using set_map_filter_remove [of prefetchOf i "idleQueue st"]
  by (simp add: idleFire_def runIdleTask_def pendingPrefetches_def idleQueue_cleanupBatch
        idleQueue_injectPrefetch split: idle_task.splits)

lemma ioEntry_excluded:
  assumes "excludedURL env href" and "href_prop env (target entry) = Some href"
  shows "ioEntry env now k entry st = st"
  using assms by (auto simp: ioEntry_def excludedURL_def split: option.splits)

lemma pendingPrefetches_ioEntry:
  "set (pendingPrefetches (ioEntry env now k entry st))
     \<subseteq> set (pendingPrefetches st) \<union> {h. \<not> excludedURL env h}"
  by (auto simp: ioEntry_def unobserve_def pendingPrefetches_def map_filter_def
        requestIdleCallback_def prefetchOf_def excludedURL_def split: option.splits)

lemma pendingPrefetches_ioCallback:
  "set (pendingPrefetches (ioCallback env now k entries st))
     \<subseteq> set (pendingPrefetches st) \<union> {h. \<not> excludedURL env h}"
  unfolding ioCallback_def
proof (induction entries arbitrary: st)
  case Nil
  then show ?case by simp
next
  case (Cons entry rest)
  show ?case
    using Cons.IH [of "ioEntry env now k entry st"] pendingPrefetches_ioEntry [of env now k entry st]
    by auto
qed

lemma pendingPrefetches_step:
  "set (pendingPrefetches (step env now ev st)) \<subseteq> set (pendingPrefetches st) \<union> {h. \<not> excludedURL env h}"
proof (cases ev)
  case (Mutations ms)
  then show ?thesis by (simp add: pendingPrefetches_mutationCallback)
next
  case (Idle i)
  then show ?thesis using pendingPrefetches_idleFire [of env i st] by auto
next
  case (Intersections k entries)
  then show ?thesis using pendingPrefetches_ioCallback [of env now k entries st] by simp
qed (auto simp: pendingPrefetches_def idleQueue_onMessage idleQueue_settingsResponse
       idleQueue_domContentLoaded idleQueue_windowLoaded imageLoaded_def stylesheetLoaded_def
       pageScriptLoaded_def)

lemma reachable_pendingPrefetches:
  "reachable env st \<Longrightarrow> h \<in> set (pendingPrefetches st) \<Longrightarrow> \<not> excludedURL env h"
proof (induction arbitrary: h rule: reachable.induct)
  case (reachable_init d rs now)
  then show ?case by (simp add: pendingPrefetches_def initialPage_def map_filter_def)
next
  case (reachable_step st now ev)
  then show ?case using pendingPrefetches_step [of env now ev st] by auto
qed

text \<open>The document after each event.\<close>

lemma countHints_removeInjectedStyles:
  "countHints r h (allEls (doc (removeInjectedStyles st))) \<le> countHints r h (allEls (doc st))"
proof -
  have rm: "countHints r h (allEls (case getElementById d i of None \<Rightarrow> d | Some el \<Rightarrow> removeEl (nid el) d))
              \<le> countHints r h (allEls d)" for d i
    by (simp add: countHints_removeEl split: option.splits)
  let ?d1 = "case getElementById (doc st) animationsStyleId of
               None \<Rightarrow> doc st | Some el \<Rightarrow> removeEl (nid el) (doc st)"
  have "countHints r h (allEls (case getElementById ?d1 contentVisibilityStyleId of
                                  None \<Rightarrow> ?d1 | Some el \<Rightarrow> removeEl (nid el) ?d1))
          \<le> countHints r h (allEls ?d1)"
    by (rule rm)
  also have "\<dots> \<le> countHints r h (allEls (doc st))"
    by (rule rm)
  finally show ?thesis
    by (simp add: removeInjectedStyles_def Let_def countHints_mapEls removeAttribute_def)
qed

lemma countHints_onMessage:
  "countHints ''prefetch'' h (allEls (doc (onMessage env now m st)))
     \<le> countHints ''prefetch'' h (allEls (doc st))"
proof -
  have a: "countHints ''prefetch'' h (allEls (doc (applyOptimizations env now st')))
         = countHints ''prefetch'' h (allEls (doc st'))" for st'
    by (rule countHints_evolves [OF evolves_applyOptimizations engineNode_not_prefetch])
  show ?thesis
    using a [of "st\<lparr>optimizationsApplied := False\<rparr>"]
      countHints_removeInjectedStyles [of "''prefetch''" h]
    by (auto simp: onMessage_def isContextValid_def Let_def a
          split: message.splits runtime.splits
          intro: order_trans [OF countHints_removeInjectedStyles])
qed

lemma doc_ioEntry: "doc (ioEntry env now k entry st) = doc st"
  by (simp add: ioEntry_def unobserve_def split: option.splits)

lemma doc_ioCallback: "doc (ioCallback env now k entries st) = doc st"
  unfolding ioCallback_def by (induction entries arbitrary: st) (simp_all add: doc_ioEntry)

lemma countHints_imageLoaded:
  "countHints r h (allEls (doc (imageLoaded n st))) = countHints r h (allEls (doc st))"
  by (simp add: imageLoaded_def updateEl_def countHints_mapEls stabilizeImage_def
        setAttribute_def)

lemma countHints_injectPrefetch:
  assumes "h' \<noteq> h"
  shows "countHints ''prefetch'' h (allEls (doc (injectPrefetch k h' st)))
       = countHints ''prefetch'' h (allEls (doc st))"
  using assms
  by (simp add: injectPrefetch_def countHints_appendHead)
     (simp add: countHints_def prefetchLink_def)

lemma prefetchOf_pending:
  assumes "i < length (idleQueue st)" and "task (idleQueue st ! i) = PrefetchTask k h'"
  shows "h' \<in> set (pendingPrefetches st)"
proof -
  have "idleQueue st ! i \<in> set (idleQueue st)"
    using assms(1) by simp
  moreover have "prefetchOf (idleQueue st ! i) = Some h'"
    using assms(2) by (simp add: prefetchOf_def)
  ultimately show ?thesis
    by (force simp: pendingPrefetches_def map_filter_def)
qed

lemma countHints_idleFire:
  assumes "h \<notin> set (pendingPrefetches st)"
  shows "countHints ''prefetch'' h (allEls (doc (idleFire env i st)))
       = countHints ''prefetch'' h (allEls (doc st))"
proof (cases "i < length (idleQueue st)")
  case False
  then show ?thesis by (simp add: idleFire_def)
next
  case True
  let ?st = "st\<lparr>idleQueue := take i (idleQueue st) @ drop (Suc i) (idleQueue st)\<rparr>"
  show ?thesis
  proof (cases "task (idleQueue st ! i)")
    case CleanupTask
    have "countHints ''prefetch'' h (allEls (doc (cleanupBatch env ?st)))
        = countHints ''prefetch'' h (allEls (doc ?st))"
      by (rule countHints_evolves [OF evolves_cleanupBatch engineNode_not_prefetch])
    then show ?thesis using True CleanupTask by (simp add: idleFire_def runIdleTask_def)
  next
    case (PrefetchTask k h')
    have "h' \<noteq> h"
      using prefetchOf_pending [OF True PrefetchTask] assms by auto
    then show ?thesis
      using True PrefetchTask countHints_injectPrefetch [of h' h k ?st]
      by (simp add: idleFire_def runIdleTask_def)
  qed
qed

lemma countHints_step:
  assumes "h \<notin> set (pendingPrefetches st)" and "\<not> isHostUpdate ev"
  shows "countHints ''prefetch'' h (allEls (doc (step env now ev st)))
       \<le> countHints ''prefetch'' h (allEls (doc st))"
proof (cases ev)
  case (Message m)
  then show ?thesis by (simp add: countHints_onMessage)
next
  case (SettingsResponse r)
  have "countHints ''prefetch'' h (allEls (doc (applyOptimizations env now st')))
         = countHints ''prefetch'' h (allEls (doc st'))" for st'
    by (rule countHints_evolves [OF evolves_applyOptimizations engineNode_not_prefetch])
  then show ?thesis
    using SettingsResponse by (simp add: settingsResponse_def split: option.splits)
next
  case DOMContentLoadedEvent
  have "countHints ''prefetch'' h (allEls (doc (onDOMContentLoaded env s st')))
         = countHints ''prefetch'' h (allEls (doc st'))" for s st'
    by (rule countHints_evolves [OF evolves_onDOMContentLoaded engineNode_not_prefetch])
  then show ?thesis
    using DOMContentLoadedEvent by (simp add: domContentLoaded_def Let_def split: option.splits)
next
  case LoadEvent
  have "countHints ''prefetch'' h (allEls (doc (onLoad now s st')))
         = countHints ''prefetch'' h (allEls (doc st'))" for s st'
    by (rule countHints_evolves [OF evolves_onLoad engineNode_not_prefetch])
  then show ?thesis
    using LoadEvent by (simp add: windowLoaded_def Let_def split: option.splits)
next
  case (Mutations ms)
  have "countHints ''prefetch'' h (allEls (doc (mutationCallback env now ms st)))
         = countHints ''prefetch'' h (allEls (doc st))"
    by (rule countHints_evolves [OF evolves_mutationCallback engineNode_not_prefetch])
  then show ?thesis using Mutations by simp
next
  case (Idle i)
  then show ?thesis using countHints_idleFire [OF assms(1)] by simp
next
  case (Intersections k entries)
  then show ?thesis by (simp add: doc_ioCallback)
next
  case (ImageLoad n)
  then show ?thesis by (simp add: countHints_imageLoaded)
next
  case (StylesheetLoad n)
  have "countHints ''prefetch'' h (allEls (doc (stylesheetLoaded n st)))
         = countHints ''prefetch'' h (allEls (doc st))"
    by (rule countHints_evolves [OF evolves_stylesheetLoaded engineNode_not_prefetch])
  then show ?thesis using StylesheetLoad by simp
next
  case (PageScriptLoad n)
  then show ?thesis by (simp add: pageScriptLoaded_def countHints_removeEl)
next
  case (HostUpdate d r)
  then show ?thesis using assms(2) by (simp add: isHostUpdate_def)
qed

text \<open>
  C8. Take a URL with a query string or with a path that matches the state-changing
  pattern, such as \<open>/logout?token=x\<close>. In every reachable state no prefetch injection
  for it is pending in the idle queue; an intersection entry for a link with that URL
  leaves the state as it is, whether it intersects or not; and no event of the content
  script adds a \<open>prefetch\<close> link for it to the document.
\<close>

theorem prefetch_never_excluded:
  assumes "reachable env st" and "excludedURL env href"
  shows "href \<notin> set (pendingPrefetches st)
       \<and> (href_prop env (target entry) = Some href \<longrightarrow> ioEntry env now k entry st = st)
       \<and> (\<not> isHostUpdate ev \<longrightarrow>
             countHints ''prefetch'' href (allEls (doc (step env now ev st)))
               \<le> countHints ''prefetch'' href (allEls (doc st)))"
proof -
  have p: "href \<notin> set (pendingPrefetches st)"
    using reachable_pendingPrefetches [OF assms(1)] assms(2) by blast
  show ?thesis
    using p ioEntry_excluded [OF assms(2)] countHints_step [OF p] by blast
qed

lemma stateChangingPath_logout: "stateChangingPath ''/logout''"
  by (simp add: stateChangingPath_def ascii_lower_def)

lemma excluded_logout: "excludedURL exampleEnv ''https://site.test/logout?token=x''"
  by (simp add: excludedURL_def exampleEnv_def exampleParse_def Let_def)

lemma observers_prefetchingPage:
  "intersectionObservers prefetchingPage = [\<lparr>prefetched = [], observing = [4]\<rparr>]"
  by (simp add: prefetchingPage_def prefetchSettings_def logoutLink_def example_defs
        run_defs pass_defs onLoad_def prefetchVisibleLinks_def)

theorem prefetch_never_excluded_witness:
  "reachable exampleEnv prefetchingPage
   \<and> excludedURL exampleEnv ''https://site.test/logout?token=x''
   \<and> href_prop exampleEnv logoutLink = Some ''https://site.test/logout?token=x''
   \<and> intersectionObservers prefetchingPage = [\<lparr>prefetched = [], observing = [4]\<rparr>]
   \<and> ''https://site.test/logout?token=x'' \<notin> set (pendingPrefetches prefetchingPage)
   \<and> ioEntry exampleEnv 50 0 \<lparr>target = logoutLink, isIntersecting = True\<rparr> prefetchingPage
       = prefetchingPage
   \<and> \<not> isHostUpdate (Idle 0)
   \<and> countHints ''prefetch'' ''https://site.test/logout?token=x''
         (allEls (doc (step exampleEnv 50 (Idle 0) prefetchingPage)))
       \<le> countHints ''prefetch'' ''https://site.test/logout?token=x'' (allEls (doc prefetchingPage))"
proof -
  have r: "reachable exampleEnv prefetchingPage"
    unfolding prefetchingPage_def by (rule reachable_step [OF reachable_init])
  have h: "href_prop exampleEnv logoutLink = Some ''https://site.test/logout?token=x''"
    by (simp add: href_prop_def reflectURL_def logoutLink_def example_defs exampleParse_def Let_def)
  have i: "\<not> isHostUpdate (Idle 0)"
    by (simp add: isHostUpdate_def)
  show ?thesis
    using r h i excluded_logout observers_prefetchingPage
      prefetch_never_excluded [OF r excluded_logout,
        where entry = "\<lparr>target = logoutLink, isIntersecting = True\<rparr>" and now = 50
          and k = 0 and ev = "Idle 0"]
    by simp
qed

subsection \<open>The master toggle\<close>






















subsection \<open>A second pass\<close>























































end
